theory Spec2Isabelle
  imports Complex_Main "HOL-Library.Word" "HOL-Library.Log_Nat"
begin

section \<open>QR Studio: the render effect of \<open>QrGenerator.tsx\<close>\<close>

text \<open>
  The component keeps its inputs in React state, derives \<open>targetUrl\<close>, \<open>canGenerate\<close>
  and \<open>embedLogo\<close> from them, and redraws one canvas in the effect \<open>run\<close>.
  The embedding follows the source line by line. What the source delegates to the
  platform (the \<open>URL\<close> constructor, the \<open>qrcode\<close> package, the loading and
  resampling of \<open>/logo.png\<close>, alpha compositing) is a field of the record
  \<open>platform\<close>, passed to every function that uses it. Each asynchronous call is
  modelled by its settled result. \<open>run\<close> is one run of the effect from its start to
  its end with nothing in between; \<open>effect_start\<close> and \<open>resume\<close> are the same
  code cut at its two \<open>await\<close>s, so that runs which overlap on the one canvas can
  be followed step by step.
\<close>

subsection \<open>Strings\<close>

text \<open>A JavaScript string is a sequence of UTF-16 code units.\<close>

type_synonym code_unit = "16 word"
type_synonym js_string = "code_unit list"

definition str :: "string \<Rightarrow> js_string" where
  "str s = map (\<lambda>c. of_nat (of_char c)) s"

text \<open>
  \<open>String.prototype.trim\<close> removes the code units of the ECMAScript productions
  WhiteSpace (TAB, VT, FF, ZWNBSP and the Unicode category Zs) and LineTerminator
  (LF, CR, LS, PS) from both ends.
\<close>

definition isWhiteSpace :: "code_unit \<Rightarrow> bool" where
  "isWhiteSpace c \<longleftrightarrow>
     c \<in> {0x0009, 0x000A, 0x000B, 0x000C, 0x000D, 0x0020, 0x00A0, 0x1680,
          0x2000, 0x2001, 0x2002, 0x2003, 0x2004, 0x2005, 0x2006, 0x2007,
          0x2008, 0x2009, 0x200A, 0x2028, 0x2029, 0x202F, 0x205F, 0x3000, 0xFEFF}"

definition trim :: "js_string \<Rightarrow> js_string" where
  "trim s = rev (dropWhile isWhiteSpace (rev (dropWhile isWhiteSpace s)))"

subsection \<open>Thrown values and URLs\<close>

text \<open>
  A thrown value is either an \<open>Error\<close> object, of which the effect reads the message,
  or anything else (the \<open>Event\<close> that \<open>img.onerror\<close> passes to \<open>reject\<close>).
\<close>

datatype thrown = ErrorObject js_string | NonError

record url =
  scheme :: js_string
  afterScheme :: js_string

text \<open>The \<open>protocol\<close> getter of a URL object: the scheme followed by a colon.\<close>

definition protocol :: "url \<Rightarrow> js_string" where
  "protocol u = scheme u @ str '':''"

subsection \<open>Numbers\<close>

text \<open>
  A JavaScript number is modelled by the rational it denotes; NaN and the infinities
  are not represented. \<open>fl\<close> rounds a rational to the nearest binary64 value, ties to
  even: 53 significant bits, smallest exponent -1022 (below it the spacing stays
  \<open>2 powi -1074\<close>). Overflow to infinity is not modelled. Every arithmetic operator
  of the source is the exact operation followed by \<open>fl\<close>.
\<close>

type_synonym number = rat

definition binade :: "rat \<Rightarrow> int" where
  "binade q =
     (let (a, b) = quotient_of \<bar>q\<bar>; d = bitlen a - bitlen b
      in if 2 powi d \<le> \<bar>q\<bar> then d else d - 1)"

definition ulp :: "rat \<Rightarrow> rat" where
  "ulp q = 2 powi (max (binade q) (- 1022) - 52)"

definition round_half_even :: "rat \<Rightarrow> int" where
  "round_half_even q =
     (let f = \<lfloor>q\<rfloor>; r = q - of_int f
      in if r < 1 / 2 then f else if 1 / 2 < r then f + 1
         else if even f then f else f + 1)"

definition fl :: "rat \<Rightarrow> number" where
  "fl q = (if q = 0 then 0 else of_int (round_half_even (q / ulp q)) * ulp q)"

definition fmul :: "number \<Rightarrow> number \<Rightarrow> number" where
  "fmul a b = fl (a * b)"

definition fdiv :: "number \<Rightarrow> number \<Rightarrow> number" where
  "fdiv a b = fl (a / b)"

definition fsub :: "number \<Rightarrow> number \<Rightarrow> number" where
  "fsub a b = fl (a - b)"

text \<open>\<open>Math.floor\<close>, kept as an integer because the source only draws with it.\<close>

definition Math_floor :: "number \<Rightarrow> int" where
  "Math_floor a = \<lfloor>a\<rfloor>"

subsection \<open>The canvas\<close>

record rgba =
  red :: nat
  green :: nat
  blue :: nat
  alpha :: nat

definition transparent_black :: rgba where
  "transparent_black = \<lparr>red = 0, green = 0, blue = 0, alpha = 0\<rparr>"

definition opaque_black :: rgba where
  "opaque_black = \<lparr>red = 0, green = 0, blue = 0, alpha = 255\<rparr>"

definition opaque_white :: rgba where
  "opaque_white = \<lparr>red = 255, green = 255, blue = 255, alpha = 255\<rparr>"

text \<open>
  A canvas element with its 2D context: the bitmap (read inside
  \<open>0 \<le> i < width\<close>, \<open>0 \<le> j < height\<close>) and the context's fill style.
\<close>

record canvas =
  width :: nat
  height :: nat
  pixels :: "int \<Rightarrow> int \<Rightarrow> rgba"
  fillStyle :: rgba

record image =
  naturalWidth :: nat
  naturalHeight :: nat
  bitmap :: "nat \<Rightarrow> nat \<Rightarrow> rgba"

record qr_color =
  dark :: js_string
  light :: js_string

record qr_options =
  errorCorrectionLevel :: js_string
  qr_margin :: number
  qr_width :: number
  color :: qr_color

text \<open>
  What the source calls and does not define:
  \<^item> \<open>new_URL\<close>: the \<open>URL\<close> constructor, which throws on a string it cannot parse;
  \<^item> \<open>QRCode_toCanvas\<close>: the \<open>qrcode\<close> package, given the canvas, the text and the
    options, settling with the canvas it drew or rejecting with a thrown value (the
    canvas is then taken to be as it was handed over);
  \<^item> \<open>fetch_image\<close>: loading an \<open>Image\<close> from a path, \<open>None\<close> when its \<open>onerror\<close> fires;
  \<^item> \<open>resample\<close>: the colour of an image, scaled to a \<open>w \<times> h\<close> box, at an offset
    inside the box;
  \<^item> \<open>blend\<close>: source-over compositing of a translucent colour onto a pixel.
\<close>

record platform =
  new_URL :: "js_string \<Rightarrow> thrown + url"
  QRCode_toCanvas :: "canvas \<Rightarrow> js_string \<Rightarrow> qr_options \<Rightarrow> thrown + canvas"
  fetch_image :: "js_string \<Rightarrow> image option"
  resample :: "image \<Rightarrow> int \<Rightarrow> int \<Rightarrow> int \<Rightarrow> int \<Rightarrow> rgba"
  blend :: "rgba \<Rightarrow> rgba \<Rightarrow> rgba"

text \<open>
  Assigning a number to \<open>canvas.width\<close> converts it to an IDL \<open>unsigned long\<close>
  (truncate, then reduce modulo \<open>2 ^ 32\<close>); a value above 2147483647 selects the
  default (300 for the width, 150 for the height). Every assignment resets the
  context and clears the bitmap to transparent black.
\<close>

definition to_unsigned_long :: "number \<Rightarrow> nat" where
  "to_unsigned_long v = nat ((if v < 0 then - \<lfloor>- v\<rfloor> else \<lfloor>v\<rfloor>) mod 2 ^ 32)"

definition reflect_dimension :: "nat \<Rightarrow> number \<Rightarrow> nat" where
  "reflect_dimension dflt v =
     (let n = to_unsigned_long v in if n \<le> 2147483647 then n else dflt)"

definition reset_bitmap :: "canvas \<Rightarrow> canvas" where
  "reset_bitmap cv = cv\<lparr>pixels := (\<lambda>i j. transparent_black), fillStyle := opaque_black\<rparr>"

definition set_width :: "number \<Rightarrow> canvas \<Rightarrow> canvas" where
  "set_width v cv = reset_bitmap (cv\<lparr>width := reflect_dimension 300 v\<rparr>)"

definition set_height :: "number \<Rightarrow> canvas \<Rightarrow> canvas" where
  "set_height v cv = reset_bitmap (cv\<lparr>height := reflect_dimension 150 v\<rparr>)"

text \<open>
  Drawing with the identity transform and integer arguments. A rectangle
  \<open>(x, y, w, h)\<close> has the corners \<open>(x, y)\<close> and \<open>(x + w, y + h)\<close>, whatever the signs
  of \<open>w\<close> and \<open>h\<close>; with \<open>w = 0\<close> or \<open>h = 0\<close> it is empty. Only pixels of the bitmap
  are written.
\<close>

definition in_rect :: "int \<Rightarrow> int \<Rightarrow> int \<Rightarrow> int \<Rightarrow> int \<Rightarrow> int \<Rightarrow> bool" where
  "in_rect x y w h i j \<longleftrightarrow>
     min x (x + w) \<le> i \<and> i < max x (x + w) \<and> min y (y + h) \<le> j \<and> j < max y (y + h)"

definition in_bitmap :: "canvas \<Rightarrow> int \<Rightarrow> int \<Rightarrow> bool" where
  "in_bitmap cv i j \<longleftrightarrow> 0 \<le> i \<and> i < int (width cv) \<and> 0 \<le> j \<and> j < int (height cv)"

definition paint :: "platform \<Rightarrow> rgba \<Rightarrow> rgba \<Rightarrow> rgba" where
  "paint P src dst = (if alpha src = 255 then src else blend P src dst)"

definition clearRect :: "int \<Rightarrow> int \<Rightarrow> int \<Rightarrow> int \<Rightarrow> canvas \<Rightarrow> canvas" where
  "clearRect x y w h cv =
     cv\<lparr>pixels := (\<lambda>i j. if in_bitmap cv i j \<and> in_rect x y w h i j
                          then transparent_black else pixels cv i j)\<rparr>"

definition fillRect :: "platform \<Rightarrow> int \<Rightarrow> int \<Rightarrow> int \<Rightarrow> int \<Rightarrow> canvas \<Rightarrow> canvas" where
  "fillRect P x y w h cv =
     cv\<lparr>pixels := (\<lambda>i j. if in_bitmap cv i j \<and> in_rect x y w h i j
                          then paint P (fillStyle cv) (pixels cv i j) else pixels cv i j)\<rparr>"

definition drawImage :: "platform \<Rightarrow> image \<Rightarrow> int \<Rightarrow> int \<Rightarrow> int \<Rightarrow> int \<Rightarrow> canvas \<Rightarrow> canvas" where
  "drawImage P img x y w h cv =
     cv\<lparr>pixels := (\<lambda>i j. if in_bitmap cv i j \<and> in_rect x y w h i j
                          then paint P (resample P img w h (i - x) (j - y)) (pixels cv i j)
                          else pixels cv i j)\<rparr>"

text \<open>
  Assigning a string to \<open>ctx.fillStyle\<close>: a colour of the form \<open>#RRGGBB\<close> is parsed to
  an opaque colour; any other string here leaves the fill style as it was.
\<close>

definition hex_digit :: "code_unit \<Rightarrow> nat option" where
  "hex_digit c =
     (let n = unat c in
      if 48 \<le> n \<and> n \<le> 57 then Some (n - 48)
      else if 65 \<le> n \<and> n \<le> 70 then Some (n - 55)
      else if 97 \<le> n \<and> n \<le> 102 then Some (n - 87)
      else None)"

definition hex_byte :: "code_unit \<Rightarrow> code_unit \<Rightarrow> nat option" where
  "hex_byte a b =
     (case (hex_digit a, hex_digit b) of (Some m, Some n) \<Rightarrow> Some (16 * m + n) | _ \<Rightarrow> None)"

fun parse_hex_color :: "js_string \<Rightarrow> rgba option" where
  "parse_hex_color [h, r1, r2, g1, g2, b1, b2] =
     (if h = 35 then
        (case (hex_byte r1 r2, hex_byte g1 g2, hex_byte b1 b2) of
           (Some r, Some g, Some b) \<Rightarrow> Some \<lparr>red = r, green = g, blue = b, alpha = 255\<rparr>
         | _ \<Rightarrow> None)
      else None)"
| "parse_hex_color _ = None"

definition set_fillStyle :: "js_string \<Rightarrow> canvas \<Rightarrow> canvas" where
  "set_fillStyle s cv = (case parse_hex_color s of Some c \<Rightarrow> cv\<lparr>fillStyle := c\<rparr> | None \<Rightarrow> cv)"

subsection \<open>The component's state\<close>

datatype Mode = Redirect | Website | Plain

text \<open>
  The \<open>useState\<close> cells, the canvas behind \<open>canvasRef\<close> (\<open>None\<close>: the ref is
  null) and whether \<open>canvas.getContext("2d")\<close> hands out a context (it returns null
  on a canvas bound to another context type). The source's \<open>size\<close> is \<open>size_px\<close>
  here.
\<close>

record state =
  mode :: Mode
  websiteUrl :: js_string
  redirectUrl :: js_string
  size_px :: number
  logoRatio :: number
  margin :: number
  error :: "js_string option"
  canvasRef :: "canvas option"
  context2d :: bool

definition DEFAULT_REDIRECT_URL :: js_string where
  "DEFAULT_REDIRECT_URL = str ''https://www.example.com/app-redirect''"

text \<open>The state after the first render, around a canvas element \<open>cv\<close>.\<close>

definition initial_state :: "canvas \<Rightarrow> state" where
  "initial_state cv =
     \<lparr>mode = Redirect,
      websiteUrl = str ''https://www.example.com'',
      redirectUrl = DEFAULT_REDIRECT_URL,
      size_px = 900,
      logoRatio = fl (20 / 100),
      margin = 2,
      error = None,
      canvasRef = Some cv,
      context2d = True\<rparr>"

text \<open>
  The \<open>onClick\<close> and \<open>onChange\<close> handlers. Those of the numeric inputs receive
  \<open>Number(e.target.value)\<close> and store it as it is.
\<close>

definition onClick_mode :: "Mode \<Rightarrow> state \<Rightarrow> state" where
  "onClick_mode m st = st\<lparr>mode := m\<rparr>"

definition onChange_redirectUrl :: "js_string \<Rightarrow> state \<Rightarrow> state" where
  "onChange_redirectUrl v st = st\<lparr>redirectUrl := v\<rparr>"

definition onChange_websiteUrl :: "js_string \<Rightarrow> state \<Rightarrow> state" where
  "onChange_websiteUrl v st = st\<lparr>websiteUrl := v\<rparr>"

definition onChange_size :: "number \<Rightarrow> state \<Rightarrow> state" where
  "onChange_size v st = st\<lparr>size_px := v\<rparr>"

definition onChange_margin :: "number \<Rightarrow> state \<Rightarrow> state" where
  "onChange_margin v st = st\<lparr>margin := v\<rparr>"

definition onChange_logoRatio :: "number \<Rightarrow> state \<Rightarrow> state" where
  "onChange_logoRatio v st = st\<lparr>logoRatio := v\<rparr>"

subsection \<open>Validation and derived values\<close>

definition isValidHttpUrl :: "platform \<Rightarrow> js_string \<Rightarrow> bool" where
  "isValidHttpUrl P v =
     (case new_URL P v of
        Inr u \<Rightarrow> protocol u = str ''http:'' \<or> protocol u = str ''https:''
      | Inl _ \<Rightarrow> False)"

definition embedLogo :: "state \<Rightarrow> bool" where
  "embedLogo st \<longleftrightarrow> mode st \<noteq> Plain"

definition targetUrl :: "state \<Rightarrow> js_string" where
  "targetUrl st = (if mode st = Redirect then trim (redirectUrl st) else trim (websiteUrl st))"

definition canGenerate :: "platform \<Rightarrow> state \<Rightarrow> bool" where
  "canGenerate P st = isValidHttpUrl P (targetUrl st)"

subsection \<open>The effect\<close>

definition loadImage :: "platform \<Rightarrow> js_string \<Rightarrow> thrown + image" where
  "loadImage P src = (case fetch_image P src of Some img \<Rightarrow> Inr img | None \<Rightarrow> Inl NonError)"

definition toCanvas_options :: "state \<Rightarrow> qr_options" where
  "toCanvas_options st =
     \<lparr>errorCorrectionLevel = (if embedLogo st then str ''H'' else str ''M''),
      qr_margin = margin st,
      qr_width = size_px st,
      color = \<lparr>dark = str ''#000000'', light = str ''#FFFFFF''\<rparr>\<rparr>"

text \<open>The \<open>catch\<close> clause: the message of an \<open>Error\<close>, a fixed text for anything else.\<close>

definition catch_message :: "thrown \<Rightarrow> js_string" where
  "catch_message err =
     (case err of ErrorObject m \<Rightarrow> m | NonError \<Rightarrow> str ''Failed to generate QR.'')"

definition logoSize_of :: "state \<Rightarrow> int" where
  "logoSize_of st = Math_floor (fmul (size_px st) (logoRatio st))"

definition logo_corner :: "state \<Rightarrow> int" where
  "logo_corner st =
     Math_floor (fsub (fdiv (size_px st) 2) (fdiv (of_int (logoSize_of st)) 2))"

text \<open>The overlay of step 2, on the canvas that holds the symbol.\<close>

definition overlay :: "platform \<Rightarrow> state \<Rightarrow> image \<Rightarrow> canvas \<Rightarrow> canvas" where
  "overlay P st logo cv =
     (let logoSize = logoSize_of st;
          x = logo_corner st;
          y = logo_corner st;
          cv1 = set_fillStyle (str ''#FFFFFF'') cv;
          cv2 = fillRect P x y logoSize logoSize cv1
      in drawImage P logo x y logoSize logoSize cv2)"

definition run :: "platform \<Rightarrow> state \<Rightarrow> state" where
  "run P st0 =
     (let st = st0\<lparr>error := None\<rparr> in
      case canvasRef st of
        None \<Rightarrow> st
      | Some cv \<Rightarrow>
          if \<not> context2d st then st
          else if \<not> canGenerate P st then
            st\<lparr>canvasRef := Some (clearRect 0 0 (int (width cv)) (int (height cv)) cv),
               error := Some (str ''Please enter a valid http/https URL.'')\<rparr>
          else
            let cv1 = set_height (size_px st) (set_width (size_px st) cv) in
            case QRCode_toCanvas P cv1 (targetUrl st) (toCanvas_options st) of
              Inl err \<Rightarrow> st\<lparr>canvasRef := Some cv1, error := Some (catch_message err)\<rparr>
            | Inr cv2 \<Rightarrow>
                if embedLogo st then
                  (case loadImage P (str ''/logo.png'') of
                     Inl err \<Rightarrow> st\<lparr>canvasRef := Some cv2, error := Some (catch_message err)\<rparr>
                   | Inr logo \<Rightarrow> st\<lparr>canvasRef := Some (overlay P st logo cv2)\<rparr>)
                else st\<lparr>canvasRef := Some cv2\<rparr>)"

subsection \<open>The effect, cut at its awaits\<close>

text \<open>
  The effect is an \<open>async\<close> function. It runs up to \<open>await QRCode.toCanvas\<close>; what
  follows runs later, up to \<open>await loadImage\<close>; the rest runs later again. A
  suspended run keeps the values of the render that started it (the state at its
  start, with which it computes the logo square); the canvas element and
  \<open>setError\<close> are shared with every other run. The \<open>qrcode\<close> package draws while
  \<open>toCanvas\<close> is called, so the symbol is on the canvas at the end of the first
  piece, and the continuation receives only whether the call was rejected. The effect
  returns no cleanup function and keeps no request number: nothing stops a suspended
  run from resuming after a later run has started.
\<close>

datatype pending =
    AwaitEngine state "thrown option"
  | AwaitLogo state "thrown + image"

definition effect_start :: "platform \<Rightarrow> state \<Rightarrow> state \<times> pending option" where
  "effect_start P st0 =
     (let st = st0\<lparr>error := None\<rparr> in
      case canvasRef st of
        None \<Rightarrow> (st, None)
      | Some cv \<Rightarrow>
          if \<not> context2d st then (st, None)
          else if \<not> canGenerate P st then
            (st\<lparr>canvasRef := Some (clearRect 0 0 (int (width cv)) (int (height cv)) cv),
                error := Some (str ''Please enter a valid http/https URL.'')\<rparr>, None)
          else
            let cv1 = set_height (size_px st) (set_width (size_px st) cv) in
            case QRCode_toCanvas P cv1 (targetUrl st) (toCanvas_options st) of
              Inl err \<Rightarrow> (st\<lparr>canvasRef := Some cv1\<rparr>, Some (AwaitEngine st (Some err)))
            | Inr cv2 \<Rightarrow> (st\<lparr>canvasRef := Some cv2\<rparr>, Some (AwaitEngine st None)))"

text \<open>
  A continuation, run on the state the component has when it resumes: it reads the
  size, the ratio and the mode from its own closure and writes to the shared canvas and
  error.
\<close>

definition resume :: "platform \<Rightarrow> pending \<Rightarrow> state \<Rightarrow> state \<times> pending option" where
  "resume P k cur =
     (case k of
        AwaitEngine closure rejected \<Rightarrow>
          (case rejected of
             Some err \<Rightarrow> (cur\<lparr>error := Some (catch_message err)\<rparr>, None)
           | None \<Rightarrow>
               if embedLogo closure
               then (cur, Some (AwaitLogo closure (loadImage P (str ''/logo.png''))))
               else (cur, None))
      | AwaitLogo closure settled \<Rightarrow>
          (case settled of
             Inl err \<Rightarrow> (cur\<lparr>error := Some (catch_message err)\<rparr>, None)
           | Inr logo \<Rightarrow>
               (cur\<lparr>canvasRef := map_option (overlay P closure logo) (canvasRef cur)\<rparr>, None)))"

text \<open>
  The component with its suspended runs. An effect starts on the current state; the
  \<open>i\<close>-th suspended run resumes; the user changes an input.
\<close>

type_synonym world = "state \<times> pending list"

definition start_effect :: "platform \<Rightarrow> world \<Rightarrow> world" where
  "start_effect P w =
     (case effect_start P (fst w) of
        (st, None) \<Rightarrow> (st, snd w)
      | (st, Some k) \<Rightarrow> (st, snd w @ [k]))"

definition resume_nth :: "platform \<Rightarrow> nat \<Rightarrow> world \<Rightarrow> world" where
  "resume_nth P i w =
     (if i < length (snd w) then
        (case resume P (snd w ! i) (fst w) of
           (st, None) \<Rightarrow> (st, take i (snd w) @ drop (Suc i) (snd w))
         | (st, Some k) \<Rightarrow> (st, take i (snd w) @ [k] @ drop (Suc i) (snd w)))
      else w)"

definition user_input :: "(state \<Rightarrow> state) \<Rightarrow> world \<Rightarrow> world" where
  "user_input h w = (h (fst w), snd w)"

text \<open>One render with no other run in flight: the start and its two continuations.\<close>

definition render_alone :: "platform \<Rightarrow> state \<Rightarrow> world" where
  "render_alone P st = resume_nth P 0 (resume_nth P 0 (start_effect P (st, [])))"

definition pixel_at :: "world \<Rightarrow> int \<Rightarrow> int \<Rightarrow> rgba option" where
  "pixel_at w i j = (case canvasRef (fst w) of None \<Rightarrow> None | Some cv \<Rightarrow> Some (pixels cv i j))"

subsection \<open>A sample platform\<close>

text \<open>
  One concrete platform on which the definitions can be run: a URL constructor that
  accepts \<open>scheme://rest\<close> for three schemes, an engine that draws a chequerboard
  and rejects texts of more than 40 code units, a one-colour translucent logo, and
  source-over blending onto an opaque pixel in integer arithmetic.
\<close>

definition sample_new_URL :: "js_string \<Rightarrow> thrown + url" where
  "sample_new_URL s =
     (if take 7 s = str ''http://'' \<and> 7 < length s
        then Inr \<lparr>scheme = str ''http'', afterScheme = drop 5 s\<rparr>
      else if take 8 s = str ''https://'' \<and> 8 < length s
        then Inr \<lparr>scheme = str ''https'', afterScheme = drop 6 s\<rparr>
      else if take 6 s = str ''ftp://'' \<and> 6 < length s
        then Inr \<lparr>scheme = str ''ftp'', afterScheme = drop 4 s\<rparr>
      else Inl (ErrorObject (str ''Invalid URL'')))"

definition chequer :: "int \<Rightarrow> int \<Rightarrow> rgba" where
  "chequer i j = (if even (i + j) then opaque_black else opaque_white)"

definition sample_toCanvas :: "canvas \<Rightarrow> js_string \<Rightarrow> qr_options \<Rightarrow> thrown + canvas" where
  "sample_toCanvas cv text opts =
     (if 40 < length text then Inl (ErrorObject (str ''The amount of data is too big''))
      else Inr (cv\<lparr>pixels := chequer\<rparr>))"

definition sample_blend :: "rgba \<Rightarrow> rgba \<Rightarrow> rgba" where
  "sample_blend src dst =
     \<lparr>red = (red src * alpha src + red dst * (255 - alpha src)) div 255,
      green = (green src * alpha src + green dst * (255 - alpha src)) div 255,
      blue = (blue src * alpha src + blue dst * (255 - alpha src)) div 255,
      alpha = 255\<rparr>"

definition sample_logo :: image where
  "sample_logo =
     \<lparr>naturalWidth = 1, naturalHeight = 1,
      bitmap = (\<lambda>i j. \<lparr>red = 200, green = 0, blue = 0, alpha = 128\<rparr>)\<rparr>"

definition sample_platform :: platform where
  "sample_platform =
     \<lparr>new_URL = sample_new_URL,
      QRCode_toCanvas = sample_toCanvas,
      fetch_image = (\<lambda>src. if src = str ''/logo.png'' then Some sample_logo else None),
      resample = (\<lambda>img w h dx dy. bitmap img 0 0),
      blend = sample_blend\<rparr>"

definition offline_platform :: platform where
  "offline_platform = sample_platform\<lparr>fetch_image := (\<lambda>src. None)\<rparr>"

definition blank_canvas :: canvas where
  "blank_canvas =
     \<lparr>width = 300, height = 150, pixels = (\<lambda>i j. transparent_black), fillStyle = opaque_black\<rparr>"

text \<open>
  Sample states: the initial state around a fresh canvas, the same with an \<open>ftp\<close>
  address typed into the redirect field, with an address longer than the sample
  engine takes, and switched to the mode without a logo.
\<close>

definition sample_state :: state where
  "sample_state = initial_state blank_canvas"

definition ftp_state :: state where
  "ftp_state = onChange_redirectUrl (str ''ftp://example.com'') sample_state"

definition long_state :: state where
  "long_state =
     onChange_redirectUrl (str ''https://www.example.com/app-redirect/with/a/long/path'')
       sample_state"

definition plain_state :: state where
  "plain_state = onClick_mode Plain sample_state"

text \<open>
  Further samples: an engine that accepts one set of options only, the canvas the
  sample engine returns at 900 pixels, a state with a size above the input's maximum,
  the two corners of the documented ranges, and a padded address.
\<close>

definition picky_toCanvas :: "canvas \<Rightarrow> js_string \<Rightarrow> qr_options \<Rightarrow> thrown + canvas" where
  "picky_toCanvas cv text opts =
     (if errorCorrectionLevel opts = str ''H'' \<and> qr_margin opts = 2 \<and> qr_width opts = 900
         \<and> dark (color opts) = str ''#000000'' \<and> light (color opts) = str ''#FFFFFF''
      then sample_toCanvas cv text opts else Inl NonError)"

definition sample_symbol :: canvas where
  "sample_symbol = \<lparr>width = 900, height = 900, pixels = chequer, fillStyle = opaque_black\<rparr>"

definition oversized_state :: state where
  "oversized_state = onChange_size 5000 sample_state"

definition smallest_state :: state where
  "smallest_state = onChange_logoRatio (fl (14 / 100)) (onChange_size 300 sample_state)"

definition largest_state :: state where
  "largest_state = onChange_logoRatio (fl (26 / 100)) (onChange_size 2000 sample_state)"

definition padded_state :: state where
  "padded_state = onChange_redirectUrl (str ''  https://www.example.com  '') sample_state"

text \<open>
  A render that is overtaken: the size is set to 1800 and the effect runs until it
  waits for the logo; the size is set back to 900 and the effect starts again and
  runs until it waits for the logo too; then the first run resumes, then the second.
\<close>

definition large_state :: state where
  "large_state = onChange_size 1800 sample_state"

definition first_render_waiting :: world where
  "first_render_waiting =
     resume_nth sample_platform 0
       (start_effect sample_platform (onChange_size 1800 sample_state, []))"

definition second_request :: world where
  "second_request = user_input (onChange_size 900) first_render_waiting"

definition second_render_waiting :: world where
  "second_render_waiting =
     resume_nth sample_platform 1 (start_effect sample_platform second_request)"

definition superseded_history :: world where
  "superseded_history =
     resume_nth sample_platform 0 (resume_nth sample_platform 0 second_render_waiting)"

section \<open>Facts about the embedding\<close>

subsection \<open>Strings and validation\<close>

lemma protocol_eq_iff:
  "protocol u = str ''http:'' \<longleftrightarrow> scheme u = str ''http''"
  "protocol u = str ''https:'' \<longleftrightarrow> scheme u = str ''https''"
  by (simp_all add: protocol_def str_def)

lemma trim_padded:
  assumes l: "\<forall>c\<in>set l. isWhiteSpace c" and r: "\<forall>c\<in>set r. isWhiteSpace c"
  shows "trim (l @ u @ r) = trim u"
proof -
  have 1: "dropWhile isWhiteSpace (l @ u @ r) = dropWhile isWhiteSpace (u @ r)"
    using l by (simp add: dropWhile_append2)
  have 2: "dropWhile isWhiteSpace (rev (dropWhile isWhiteSpace (u @ r)))
           = dropWhile isWhiteSpace (rev (dropWhile isWhiteSpace u))"
  proof (cases "\<forall>c\<in>set u. isWhiteSpace c")
    case True
    then have A: "dropWhile isWhiteSpace (u @ r) = []" and B: "dropWhile isWhiteSpace u = []"
      using r by (auto simp: dropWhile_eq_Nil_conv)
    show ?thesis unfolding A B ..
  next
    case False
    then obtain c where "c \<in> set u" "\<not> isWhiteSpace c" by blast
    then have "dropWhile isWhiteSpace (u @ r) = dropWhile isWhiteSpace u @ r"
      by (simp add: dropWhile_append1)
    moreover have "dropWhile isWhiteSpace (rev r @ rev (dropWhile isWhiteSpace u))
        = dropWhile isWhiteSpace (rev (dropWhile isWhiteSpace u))"
      by (rule dropWhile_append2) (use r in simp)
    ultimately show ?thesis by simp
  qed
  show ?thesis unfolding trim_def 1 2 ..
qed

lemma str_append: "str (a @ b) = str a @ str b"
  by (simp add: str_def)

subsection \<open>Derived values do not read the error or the canvas\<close>

lemma derived_error_update [simp]:
  "targetUrl (st\<lparr>error := e\<rparr>) = targetUrl st"
  "embedLogo (st\<lparr>error := e\<rparr>) = embedLogo st"
  "canGenerate P (st\<lparr>error := e\<rparr>) = canGenerate P st"
  "toCanvas_options (st\<lparr>error := e\<rparr>) = toCanvas_options st"
  "logoSize_of (st\<lparr>error := e\<rparr>) = logoSize_of st"
  "logo_corner (st\<lparr>error := e\<rparr>) = logo_corner st"
  "overlay P (st\<lparr>error := e\<rparr>) = overlay P st"
  by (simp_all add: targetUrl_def embedLogo_def canGenerate_def toCanvas_options_def
      logoSize_of_def logo_corner_def overlay_def fun_eq_iff)

lemma derived_canvasRef_update [simp]:
  "targetUrl (st\<lparr>canvasRef := c\<rparr>) = targetUrl st"
  "embedLogo (st\<lparr>canvasRef := c\<rparr>) = embedLogo st"
  "canGenerate P (st\<lparr>canvasRef := c\<rparr>) = canGenerate P st"
  "toCanvas_options (st\<lparr>canvasRef := c\<rparr>) = toCanvas_options st"
  "logoSize_of (st\<lparr>canvasRef := c\<rparr>) = logoSize_of st"
  "logo_corner (st\<lparr>canvasRef := c\<rparr>) = logo_corner st"
  "overlay P (st\<lparr>canvasRef := c\<rparr>) = overlay P st"
  by (simp_all add: targetUrl_def embedLogo_def canGenerate_def toCanvas_options_def
      logoSize_of_def logo_corner_def overlay_def fun_eq_iff)

lemma derived_both_update [simp]:
  "targetUrl (st\<lparr>error := e, canvasRef := c\<rparr>) = targetUrl st"
  "embedLogo (st\<lparr>error := e, canvasRef := c\<rparr>) = embedLogo st"
  "canGenerate P (st\<lparr>error := e, canvasRef := c\<rparr>) = canGenerate P st"
  "toCanvas_options (st\<lparr>error := e, canvasRef := c\<rparr>) = toCanvas_options st"
  "overlay P (st\<lparr>error := e, canvasRef := c\<rparr>) = overlay P st"
  by (simp_all add: targetUrl_def embedLogo_def canGenerate_def toCanvas_options_def
      logoSize_of_def logo_corner_def overlay_def fun_eq_iff)

lemma canGenerate_platform:
  "new_URL P' = new_URL P \<Longrightarrow> canGenerate P' st = canGenerate P st"
  by (simp add: canGenerate_def isValidHttpUrl_def)

subsection \<open>The branches of the effect\<close>

lemma run_no_canvas: "canvasRef st = None \<Longrightarrow> run P st = st\<lparr>error := None\<rparr>"
  by (simp add: run_def)

lemma run_no_context:
  "canvasRef st = Some cv \<Longrightarrow> \<not> context2d st \<Longrightarrow> run P st = st\<lparr>error := None\<rparr>"
  by (simp add: run_def)

lemma run_invalid:
  assumes "canvasRef st = Some cv" "context2d st" "\<not> canGenerate P st"
  shows "run P st = st\<lparr>error := Some (str ''Please enter a valid http/https URL.''),
                      canvasRef := Some (clearRect 0 0 (int (width cv)) (int (height cv)) cv)\<rparr>"
  using assms by (simp add: run_def Let_def)

lemma run_valid:
  assumes "canvasRef st = Some cv" "context2d st" "canGenerate P st"
  shows "run P st =
     (let cv1 = set_height (size_px st) (set_width (size_px st) cv) in
      case QRCode_toCanvas P cv1 (targetUrl st) (toCanvas_options st) of
        Inl err \<Rightarrow> st\<lparr>error := Some (catch_message err), canvasRef := Some cv1\<rparr>
      | Inr cv2 \<Rightarrow>
          if embedLogo st then
            (case loadImage P (str ''/logo.png'') of
               Inl err \<Rightarrow> st\<lparr>error := Some (catch_message err), canvasRef := Some cv2\<rparr>
             | Inr logo \<Rightarrow> st\<lparr>error := None, canvasRef := Some (overlay P st logo cv2)\<rparr>)
          else st\<lparr>error := None, canvasRef := Some cv2\<rparr>)"
  using assms by (simp add: run_def Let_def split: sum.splits)

lemma run_frame: "run P st = st\<lparr>canvasRef := canvasRef (run P st), error := error (run P st)\<rparr>"
  by (simp add: run_def Let_def split: option.splits sum.splits)

lemma run_cong_targetUrl:
  assumes "targetUrl st' = targetUrl st" "mode st' = mode st" "size_px st' = size_px st"
    "logoRatio st' = logoRatio st" "margin st' = margin st" "canvasRef st' = canvasRef st"
    "context2d st' = context2d st"
  shows "canvasRef (run P st') = canvasRef (run P st) \<and> error (run P st') = error (run P st)"
proof -
  have "toCanvas_options st' = toCanvas_options st" "embedLogo st' = embedLogo st"
    "canGenerate P st' = canGenerate P st" "overlay P st' = overlay P st"
    using assms
    by (simp_all add: toCanvas_options_def embedLogo_def canGenerate_def overlay_def
        logoSize_of_def logo_corner_def fun_eq_iff)
  then show ?thesis using assms
    by (simp add: run_def Let_def split: option.splits sum.splits)
qed

lemma resized_canvas:
  "set_height v (set_width v (cv::canvas)) =
     \<lparr>width = reflect_dimension 300 v, height = reflect_dimension 150 v,
      pixels = (\<lambda>i j. transparent_black), fillStyle = opaque_black\<rparr>"
  by (cases cv) (simp add: set_height_def set_width_def reset_bitmap_def)

lemma set_fillStyle_white:
  "set_fillStyle (str ''#FFFFFF'') cv = cv\<lparr>fillStyle := opaque_white\<rparr>"
  by (simp add: set_fillStyle_def str_def hex_byte_def hex_digit_def opaque_white_def)

lemma overlay_dims:
  "width (overlay P st logo cv) = width cv" "height (overlay P st logo cv) = height cv"
  by (simp_all add: overlay_def Let_def drawImage_def fillRect_def set_fillStyle_white)

lemma overlay_pixel:
  "pixels (overlay P st logo cv) i j =
     (if in_bitmap cv i j \<and> in_rect (logo_corner st) (logo_corner st) (logoSize_of st) (logoSize_of st) i j
      then paint P (resample P logo (logoSize_of st) (logoSize_of st) (i - logo_corner st) (j - logo_corner st))
             opaque_white
      else pixels cv i j)"
  by (simp add: overlay_def Let_def set_fillStyle_white drawImage_def fillRect_def in_bitmap_def
      paint_def opaque_white_def)

lemma run_logo_failure:
  assumes "canvasRef st = Some cv" "context2d st" "canGenerate P st" "mode st \<noteq> Plain"
    and "QRCode_toCanvas P (set_height (size_px st) (set_width (size_px st) cv)) (targetUrl st)
           (toCanvas_options st) = Inr qr"
    and "fetch_image P (str ''/logo.png'') = None"
  shows "run P st = st\<lparr>error := Some (str ''Failed to generate QR.''), canvasRef := Some qr\<rparr>"
  using assms by (simp add: run_valid Let_def embedLogo_def loadImage_def catch_message_def)

lemma run_success:
  assumes "canvasRef st = Some cv" "context2d st" "canGenerate P st"
    and "QRCode_toCanvas P (set_height (size_px st) (set_width (size_px st) cv)) (targetUrl st)
           (toCanvas_options st) = Inr qr"
    and "mode st = Plain \<or> fetch_image P (str ''/logo.png'') \<noteq> None"
  shows "error (run P st) = None"
  using assms
  by (auto simp: run_valid Let_def embedLogo_def loadImage_def split: option.splits)

lemma run_prior_output:
  assumes "canvasRef st = Some c" "context2d st" "canGenerate P st"
  shows "run P (st\<lparr>canvasRef := Some c', error := e\<rparr>) = run P st"
proof -
  let ?st' = "st\<lparr>canvasRef := Some c', error := e\<rparr>"
  have "canvasRef ?st' = Some c'" "context2d ?st'" "canGenerate P ?st'"
    using assms by simp_all
  note v = run_valid[OF this] run_valid[OF assms]
  show ?thesis unfolding v
    by (simp add: Let_def resized_canvas cong: sum.case_cong if_cong)
qed

lemma run_twice: "run P (run P st) = run P st"
proof (cases "canvasRef st")
  case None
  then show ?thesis by (simp add: run_no_canvas)
next
  case (Some cv)
  show ?thesis
  proof (cases "context2d st")
    case False
    with Some show ?thesis by (simp add: run_no_context)
  next
    case ctx: True
    show ?thesis
    proof (cases "canGenerate P st")
      case False
      let ?cv = "clearRect 0 0 (int (width cv)) (int (height cv)) cv"
      let ?st = "st\<lparr>error := Some (str ''Please enter a valid http/https URL.''),
                      canvasRef := Some ?cv\<rparr>"
      have 1: "run P st = ?st" using Some ctx False by (rule run_invalid)
      have "run P ?st = ?st\<lparr>error := Some (str ''Please enter a valid http/https URL.''),
             canvasRef := Some (clearRect 0 0 (int (width ?cv)) (int (height ?cv)) ?cv)\<rparr>"
        by (rule run_invalid) (use ctx False in simp_all)
      also have "\<dots> = ?st"
        by (simp add: clearRect_def in_bitmap_def fun_eq_iff)
      finally show ?thesis unfolding 1 .
    next
      case True
      have "canvasRef (run P st) \<noteq> None"
        unfolding run_valid[OF Some ctx True] Let_def by (simp split: sum.splits)
      then obtain c' where "canvasRef (run P st) = Some c'" by blast
      with run_frame[of P st]
      obtain e where r: "run P st = st\<lparr>canvasRef := Some c', error := e\<rparr>"
        by simp
      show ?thesis unfolding r using run_prior_output[OF Some ctx True, where c' = c' and e = e] r by simp
    qed
  qed
qed

lemma render_alone_run: "render_alone P st = (run P st, [])"
proof (cases "canvasRef st")
  case None
  then show ?thesis
    by (simp add: render_alone_def start_effect_def effect_start_def resume_nth_def run_def)
next
  case (Some cv)
  show ?thesis
  proof (cases "context2d st \<and> canGenerate P st")
    case False
    then show ?thesis using Some
      by (auto simp: render_alone_def start_effect_def effect_start_def resume_nth_def run_def Let_def)
  next
    case True
    then have v: "context2d st" "canGenerate P st" by simp_all
    show ?thesis
      unfolding run_valid[OF Some v]
      using Some v
      by (auto simp: render_alone_def start_effect_def effect_start_def resume_nth_def Let_def
          resume_def split: sum.splits)
  qed
qed

subsection \<open>The platform fields each function reads\<close>

lemma paint_engine_update [simp]: "paint (P\<lparr>QRCode_toCanvas := E\<rparr>) = paint P"
  by (simp add: paint_def fun_eq_iff)

lemma fillRect_engine_update [simp]: "fillRect (P\<lparr>QRCode_toCanvas := E\<rparr>) = fillRect P"
  by (simp add: fillRect_def fun_eq_iff)

lemma drawImage_engine_update [simp]: "drawImage (P\<lparr>QRCode_toCanvas := E\<rparr>) = drawImage P"
  by (simp add: drawImage_def fun_eq_iff)

lemma platform_engine_update [simp]:
  "canGenerate (P\<lparr>QRCode_toCanvas := E\<rparr>) st = canGenerate P st"
  "loadImage (P\<lparr>QRCode_toCanvas := E\<rparr>) = loadImage P"
  "overlay (P\<lparr>QRCode_toCanvas := E\<rparr>) = overlay P"
  by (simp_all add: canGenerate_def isValidHttpUrl_def loadImage_def overlay_def fun_eq_iff)

lemma platform_logo_update [simp]:
  "canGenerate (P\<lparr>fetch_image := f, resample := r, blend := b\<rparr>) st = canGenerate P st"
  "QRCode_toCanvas (P\<lparr>fetch_image := f, resample := r, blend := b\<rparr>) = QRCode_toCanvas P"
  by (simp_all add: canGenerate_def isValidHttpUrl_def)

subsection \<open>Rounding to binary64\<close>

text \<open>
  Below \<open>2 ^ 53\<close> the spacing of binary64 values is a negative power of two, so
  integers are representable and rounding cannot cross one; halves of integers are
  representable as well.
\<close>

lemma ulp_pos: "0 < ulp q"
  by (simp add: ulp_def)

lemma round_half_even_of_int: "round_half_even (of_int z) = z"
  by (simp add: round_half_even_def)

lemma round_half_even_le:
  assumes "x \<le> of_int N" shows "round_half_even x \<le> N"
proof -
  have f: "\<lfloor>x\<rfloor> \<le> N" using assms by (simp add: floor_le_iff) 
  show ?thesis
  proof (cases "x = of_int \<lfloor>x\<rfloor>")
    case True
    then show ?thesis using f by (simp add: round_half_even_def Let_def)
  next
    case False
    then have "x \<noteq> of_int N \<longrightarrow> True" by simp
    have "of_int \<lfloor>x\<rfloor> < x" using False of_int_floor_le[of x] by linarith
    then have "of_int \<lfloor>x\<rfloor> < (of_int N :: rat)" using assms by linarith
    then have "\<lfloor>x\<rfloor> < N" by simp
    then have "\<lfloor>x\<rfloor> + 1 \<le> N" by simp
    then show ?thesis using f by (simp add: round_half_even_def Let_def)
  qed
qed

lemma round_half_even_ge:
  assumes "of_int N \<le> x" shows "N \<le> round_half_even x"
proof -
  have "N \<le> \<lfloor>x\<rfloor>" using assms by (simp add: le_floor_iff)
  then show ?thesis by (simp add: round_half_even_def Let_def)
qed

lemma binade_le:
  assumes "q \<noteq> 0" shows "2 powi binade q \<le> \<bar>q\<bar>"
proof -
  obtain a b where ab: "quotient_of \<bar>q\<bar> = (a, b)" by (cases "quotient_of \<bar>q\<bar>")
  have b: "0 < b" using ab quotient_of_denom_pos by blast
  have q: "\<bar>q\<bar> = of_int a / of_int b" using ab by (rule quotient_of_div)
  have "0 < \<bar>q\<bar>" using assms by simp
  then have a: "0 < a" using b unfolding q by (simp add: zero_less_divide_iff)
  let ?d = "bitlen a - bitlen b"
  show ?thesis
  proof (cases "2 powi ?d \<le> \<bar>q\<bar>")
    case True
    then show ?thesis by (simp add: binade_def ab)
  next
    case False
    have la: "1 \<le> bitlen a" and lb: "1 \<le> bitlen b"
      using a b by (simp_all add: bitlen_alt_def)
    have A: "(2::rat) ^ nat (bitlen a - 1) \<le> of_int a"
    proof -
      have "(2::int) ^ nat (bitlen a - 1) \<le> a" using bitlen_bounds[OF a] by simp
      then have "(of_int ((2::int) ^ nat (bitlen a - 1)) :: rat) \<le> of_int a"
        by (simp only: of_int_le_iff)
      then show ?thesis by simp
    qed
    have B: "(of_int b :: rat) \<le> 2 ^ nat (bitlen b)"
    proof -
      have "b \<le> (2::int) ^ nat (bitlen b)" using bitlen_bounds[OF b] by simp
      then have "(of_int b :: rat) \<le> of_int ((2::int) ^ nat (bitlen b))"
        by (simp only: of_int_le_iff)
      then show ?thesis by simp
    qed
    have "(2::rat) powi (?d - 1) = 2 ^ nat (bitlen a - 1) / 2 ^ nat (bitlen b)"
    proof -
      have "?d - 1 = int (nat (bitlen a - 1)) - int (nat (bitlen b))" using la lb by simp
      moreover have "(2::rat) powi (int (nat (bitlen a - 1)) - int (nat (bitlen b)))
          = 2 powi int (nat (bitlen a - 1)) / 2 powi int (nat (bitlen b))"
        by (rule power_int_diff) simp
      ultimately show ?thesis by (simp only: power_int_of_nat)
    qed
    also have "\<dots> \<le> of_int a / of_int b"
      using A B a b by (intro frac_le) simp_all
    finally have "(2::rat) powi (?d - 1) \<le> \<bar>q\<bar>" unfolding q .
    moreover have "binade q = ?d - 1" using False by (simp add: binade_def ab)
    ultimately show ?thesis by simp
  qed
qed

lemma ulp_small:
  assumes "q \<noteq> 0" "\<bar>q\<bar> < 2 ^ 53"
  shows "\<exists>k::nat. ulp q = 1 / 2 ^ k"
proof -
  have "(2::rat) powi binade q < 2 powi 53"
    using binade_le[OF assms(1)] assms(2) by simp
  then have "binade q < 53" by (rule power_int_le_imp_less_exp[rotated]) simp_all
  define k where "k = nat (52 - max (binade q) (- 1022))"
  from \<open>binade q < 53\<close> have "max (binade q) (- 1022) - 52 = - int k"
    by (simp add: k_def)
  then have "ulp q = 2 powi (- int k)"
    by (simp only: ulp_def)
  also have "\<dots> = 1 / 2 ^ k" by (simp add: power_int_minus_divide)
  finally show ?thesis by blast
qed

lemma fl_nonneg: "0 \<le> p \<Longrightarrow> 0 \<le> fl p"
  using round_half_even_ge[of 0 "p / ulp p"] ulp_pos[of p]
  by (simp add: fl_def)

lemma fl_le_int:
  assumes m: "0 \<le> m" "m < 2 ^ 53" and p: "p \<le> of_int m"
  shows "fl p \<le> of_int m"
proof (cases "0 < p")
  case False
  then have "p / ulp p \<le> of_int 0" using ulp_pos[of p] by (simp add: divide_le_0_iff)
  then have "round_half_even (p / ulp p) \<le> 0" by (rule round_half_even_le)
  then have "fl p \<le> 0" using ulp_pos[of p] by (simp add: fl_def mult_le_0_iff)
  then show ?thesis using m by simp
next
  case True
  have "\<bar>p\<bar> < 2 ^ 53"
  proof -
    have "(of_int m :: rat) < of_int (2 ^ 53)" using m by (simp only: of_int_less_iff)
    then show ?thesis using True p by simp
  qed
  then obtain k :: nat where k: "ulp p = 1 / 2 ^ k" using ulp_small[of p] True by auto
  have "p / ulp p \<le> of_int (m * 2 ^ k)" using p by (simp add: k)
  then have "round_half_even (p / ulp p) \<le> m * 2 ^ k" by (rule round_half_even_le)
  then have "(of_int (round_half_even (p / ulp p)) :: rat) \<le> of_int (m * 2 ^ k)"
    by (simp only: of_int_le_iff)
  then have "of_int (round_half_even (p / ulp p)) * ulp p \<le> of_int m"
    by (simp add: k field_simps)
  then show ?thesis using True by (simp add: fl_def)
qed

lemma fl_half_int:
  assumes "\<bar>m\<bar> < 2 ^ 53"
  shows "fl (of_int m / 2) = of_int m / 2"
proof (cases "m = 0")
  case True
  then show ?thesis by (simp add: fl_def)
next
  case False
  let ?q = "of_int m / 2 :: rat"
  have nz: "?q \<noteq> 0" using False by simp
  have "(of_int \<bar>m\<bar> :: rat) < of_int (2 ^ 53)" using assms by (simp only: of_int_less_iff)
  then have lt: "\<bar>?q\<bar> < 2 ^ 52" by simp
  have "(2::rat) powi binade ?q < 2 powi 52"
    using binade_le[OF nz] lt by simp
  then have "binade ?q < 52" by (rule power_int_le_imp_less_exp[rotated]) simp_all
  define k where "k = nat (51 - max (binade ?q) (- 1022))"
  from \<open>binade ?q < 52\<close> have "max (binade ?q) (- 1022) - 52 = - int (Suc k)"
    by (simp add: k_def)
  then have "ulp ?q = 2 powi (- int (Suc k))"
    by (simp only: ulp_def)
  also have "\<dots> = 1 / 2 ^ Suc k" by (simp only: power_int_minus_divide power_int_of_nat)
  finally have k: "ulp ?q = 1 / 2 ^ Suc k" .
  have "?q / ulp ?q = of_int (m * 2 ^ k)" by (simp add: k)
  then have "round_half_even (?q / ulp ?q) = m * 2 ^ k"
    by (simp only: round_half_even_of_int)
  then show ?thesis using nz by (simp add: fl_def k)
qed

lemma logoSize_bounds:
  assumes "size_px st = of_int n" "0 \<le> n" "n < 2 ^ 53" "0 \<le> logoRatio st" "logoRatio st \<le> 1"
  shows "0 \<le> logoSize_of st \<and> logoSize_of st \<le> n"
proof -
  let ?p = "of_int n * logoRatio st"
  have "0 \<le> ?p" using assms by simp
  then have lo: "0 \<le> fl ?p" by (rule fl_nonneg)
  have "?p \<le> of_int n * 1" using assms by (intro mult_left_mono) simp_all
  then have "?p \<le> of_int n" by simp
  with assms(2,3) have hi: "fl ?p \<le> of_int n" by (rule fl_le_int)
  have "\<lfloor>fl ?p\<rfloor> \<le> \<lfloor>of_int n :: rat\<rfloor>" using hi by (rule floor_mono)
  then show ?thesis using lo
    by (simp add: logoSize_of_def Math_floor_def fmul_def assms(1))
qed

lemma logo_corner_exact:
  assumes "size_px st = of_int n" "0 \<le> n" "n < 2 ^ 53" "0 \<le> logoSize_of st" "logoSize_of st \<le> n"
  shows "logo_corner st = (n - logoSize_of st) div 2"
proof -
  let ?s = "logoSize_of st"
  have 1: "fl (of_int n / 2) = of_int n / 2" using assms by (intro fl_half_int) simp
  have 2: "fl (of_int ?s / 2) = of_int ?s / 2" using assms by (intro fl_half_int) simp
  have 3: "fl (of_int (n - ?s) / 2) = of_int (n - ?s) / 2" using assms by (intro fl_half_int) simp
  have e: "(of_int n / 2 - of_int ?s / 2 :: rat) = of_int (n - ?s) / 2" by (simp add: field_simps)
  have "logo_corner st = \<lfloor>fl (fl (of_int n / 2) - fl (of_int ?s / 2))\<rfloor>"
    unfolding logo_corner_def Math_floor_def fsub_def fdiv_def assms(1) ..
  also have "\<dots> = \<lfloor>(of_int (n - ?s) / 2 :: rat)\<rfloor>"
    by (simp only: 1 2 e 3)
  also have "\<dots> = (n - ?s) div 2"
    using floor_divide_of_int_eq[of "n - ?s" 2, where ?'a = rat] by (simp only: of_int_numeral)
  finally show ?thesis .
qed

lemma ratio_bounds: "0 \<le> fl (14 / 100)" "fl (26 / 100) \<le> 1"
  by code_simp+

lemma reflect_dimension_int:
  assumes "0 \<le> n" "n \<le> 2147483647"
  shows "reflect_dimension d (of_int n) = nat n"
proof -
  have "nat n \<le> 2147483647" using assms by linarith
  then show ?thesis using assms by (simp add: reflect_dimension_def to_unsigned_long_def Let_def)
qed

text \<open>
  The product is rounded before \<open>Math.floor\<close> sees it: at size 300 with the binary64
  value of 0.15 the exact product lies just below 45, the rounded one is 45.
\<close>

lemma rounded_product_example:
  "\<lfloor>(300::rat) * fl (15 / 100)\<rfloor> = 44" "Math_floor (fmul 300 (fl (15 / 100))) = 45"
  by (simp_all add: Math_floor_def, code_simp+)

subsection \<open>The sample platform and states, evaluated\<close>

lemma trim_samples:
  "trim (str ''https://www.example.com/app-redirect'') = str ''https://www.example.com/app-redirect''"
  "trim (str ''https://www.example.com'') = str ''https://www.example.com''"
  "trim (str ''ftp://example.com'') = str ''ftp://example.com''"
  by (simp_all add: trim_def str_def isWhiteSpace_def)

lemma sample_state_fields:
  "mode sample_state = Redirect" "canvasRef sample_state = Some blank_canvas"
  "context2d sample_state" "size_px sample_state = 900" "logoRatio sample_state = fl (20 / 100)"
  "margin sample_state = 2"
  "targetUrl sample_state = str ''https://www.example.com/app-redirect''"
  by (simp_all add: sample_state_def initial_state_def targetUrl_def DEFAULT_REDIRECT_URL_def
      trim_samples)

lemma sample_platform_fields:
  "new_URL sample_platform = sample_new_URL"
  "QRCode_toCanvas sample_platform = sample_toCanvas"
  "fetch_image sample_platform (str ''/logo.png'') = Some sample_logo"
  "new_URL offline_platform = sample_new_URL"
  "QRCode_toCanvas offline_platform = sample_toCanvas"
  "fetch_image offline_platform src = None"
  by (simp_all add: sample_platform_def offline_platform_def)

lemma sample_urls:
  "sample_new_URL (str ''https://www.example.com/app-redirect'')
     = Inr \<lparr>scheme = str ''https'', afterScheme = str ''//www.example.com/app-redirect''\<rparr>"
  "sample_new_URL (str ''https://www.example.com'')
     = Inr \<lparr>scheme = str ''https'', afterScheme = str ''//www.example.com''\<rparr>"
  "sample_new_URL (str ''ftp://example.com'')
     = Inr \<lparr>scheme = str ''ftp'', afterScheme = str ''//example.com''\<rparr>"
  "sample_new_URL (str ''example.com'') = Inl (ErrorObject (str ''Invalid URL''))"
  by (simp_all add: sample_new_URL_def str_def)

lemma sample_canGenerate:
  "canGenerate sample_platform sample_state"
  "canGenerate offline_platform sample_state"
  "canGenerate sample_platform plain_state"
  "\<not> canGenerate sample_platform ftp_state"
  by (simp_all add: canGenerate_def isValidHttpUrl_def sample_platform_fields sample_state_fields
      plain_state_def ftp_state_def onClick_mode_def onChange_redirectUrl_def targetUrl_def
      sample_state_def initial_state_def trim_samples sample_urls DEFAULT_REDIRECT_URL_def
      protocol_eq_iff) (simp_all add: str_def)

lemma sample_engine:
  "length t \<le> 40 \<Longrightarrow> sample_toCanvas cv t opts
     = Inr (cv\<lparr>pixels := chequer\<rparr>)"
  by (simp add: sample_toCanvas_def)

lemma sample_geometry:
  "logoSize_of sample_state = 180" "logo_corner sample_state = 360"
  by (simp_all add: sample_state_fields logoSize_of_def logo_corner_def, code_simp+)

lemma resized_900:
  "set_height 900 (set_width 900 (cv::canvas)) =
     \<lparr>width = 900, height = 900, pixels = (\<lambda>i j. transparent_black), fillStyle = opaque_black\<rparr>"
  by (simp add: resized_canvas reflect_dimension_def to_unsigned_long_def)

lemma sample_engine_900:
  "sample_toCanvas (set_height 900 (set_width 900 cv)) (targetUrl sample_state) opts =
     Inr \<lparr>width = 900, height = 900,
          pixels = chequer,
          fillStyle = opaque_black\<rparr>"
  by (simp add: sample_engine sample_state_fields resized_900 str_def)

lemma long_state_fields:
  "mode long_state = Redirect" "canvasRef long_state = Some blank_canvas"
  "context2d long_state" "size_px long_state = 900"
  "targetUrl long_state = str ''https://www.example.com/app-redirect/with/a/long/path''"
  by (simp_all add: long_state_def onChange_redirectUrl_def sample_state_def initial_state_def
      targetUrl_def trim_def str_def isWhiteSpace_def)

lemma long_canGenerate: "canGenerate sample_platform long_state"
  by (simp add: canGenerate_def isValidHttpUrl_def long_state_fields sample_platform_fields
      sample_new_URL_def protocol_eq_iff) (simp add: str_def)

lemma long_engine:
  "sample_toCanvas cv (targetUrl long_state) opts
     = Inl (ErrorObject (str ''The amount of data is too big''))"
  by (simp add: sample_toCanvas_def long_state_fields str_def)

lemma ftp_state_fields:
  "canvasRef ftp_state = Some blank_canvas" "context2d ftp_state"
  by (simp_all add: ftp_state_def onChange_redirectUrl_def sample_state_def initial_state_def)

lemma plain_state_fields:
  "mode plain_state = Plain" "canvasRef plain_state = Some blank_canvas"
  "context2d plain_state" "size_px plain_state = 900" "margin plain_state = 2"
  "targetUrl plain_state = str ''https://www.example.com''"
  by (simp_all add: plain_state_def onClick_mode_def sample_state_def initial_state_def
      targetUrl_def trim_samples)

lemma plain_engine:
  "QRCode_toCanvas sample_platform
     (set_height (size_px plain_state) (set_width (size_px plain_state) blank_canvas))
     (targetUrl plain_state) (toCanvas_options plain_state) = Inr sample_symbol"
  by (simp add: sample_platform_fields plain_state_fields resized_900 sample_engine
      sample_symbol_def str_def)

lemma sample_state_engine:
  "QRCode_toCanvas sample_platform
     (set_height (size_px sample_state) (set_width (size_px sample_state) blank_canvas))
     (targetUrl sample_state) (toCanvas_options sample_state) = Inr sample_symbol"
  by (simp add: sample_platform_fields sample_state_fields(4) sample_engine_900 sample_symbol_def)

lemma oversized_fields:
  "mode oversized_state = Redirect" "canvasRef oversized_state = Some blank_canvas"
  "context2d oversized_state" "size_px oversized_state = 5000"
  "targetUrl oversized_state = str ''https://www.example.com/app-redirect''"
  by (simp_all add: oversized_state_def onChange_size_def sample_state_def initial_state_def
      targetUrl_def DEFAULT_REDIRECT_URL_def trim_samples)

lemma oversized_canGenerate: "canGenerate sample_platform oversized_state"
  by (simp add: canGenerate_def isValidHttpUrl_def oversized_fields sample_platform_fields
      sample_urls protocol_eq_iff)

lemma boundary_fields:
  "size_px smallest_state = of_int 300" "logoRatio smallest_state = fl (14 / 100)"
  "size_px largest_state = of_int 2000" "logoRatio largest_state = fl (26 / 100)"
  by (simp_all add: smallest_state_def largest_state_def onChange_logoRatio_def onChange_size_def)

lemma smallest_state_fields:
  "mode smallest_state = Redirect" "canvasRef smallest_state = Some blank_canvas"
  "context2d smallest_state"
  "targetUrl smallest_state = str ''https://www.example.com/app-redirect''"
  by (simp_all add: smallest_state_def onChange_logoRatio_def onChange_size_def sample_state_def
      initial_state_def targetUrl_def DEFAULT_REDIRECT_URL_def trim_samples)

lemma smallest_canGenerate: "canGenerate sample_platform smallest_state"
  by (simp add: canGenerate_def isValidHttpUrl_def smallest_state_fields sample_platform_fields
      sample_urls protocol_eq_iff)

lemma smallest_engine:
  "QRCode_toCanvas sample_platform cv (targetUrl smallest_state) opts = Inr (cv\<lparr>pixels := chequer\<rparr>)"
  by (simp add: sample_platform_fields smallest_state_fields sample_engine str_def)

lemma boundary_geometry:
  "logoSize_of smallest_state = 42" "logo_corner smallest_state = 129"
  "logoSize_of largest_state = 520" "logo_corner largest_state = 740"
  by (simp_all add: boundary_fields logoSize_of_def logo_corner_def, code_simp+)

lemma default_url_engine:
  "sample_toCanvas cv (str ''https://www.example.com/app-redirect'') opts
     = Inr (cv\<lparr>pixels := chequer\<rparr>)"
  by (simp add: sample_engine str_def)

lemma resized_1800:
  "set_height 1800 (set_width 1800 (cv::canvas)) =
     \<lparr>width = 1800, height = 1800, pixels = (\<lambda>i j. transparent_black), fillStyle = opaque_black\<rparr>"
  by (simp add: resized_canvas reflect_dimension_def to_unsigned_long_def)

lemma sample_loadImage: "loadImage sample_platform (str ''/logo.png'') = Inr sample_logo"
  by (simp add: loadImage_def sample_platform_fields)

lemma sample_logo_on_white:
  "paint sample_platform (resample sample_platform sample_logo w h dx dy) opaque_white
     = \<lparr>red = 227, green = 127, blue = 127, alpha = 255\<rparr>"
  by (simp add: paint_def sample_platform_def sample_logo_def sample_blend_def opaque_white_def)

lemma large_state_fields:
  "mode large_state = Redirect" "canvasRef large_state = Some blank_canvas"
  "context2d large_state" "size_px large_state = 1800" "logoRatio large_state = fl (20 / 100)"
  "targetUrl large_state = str ''https://www.example.com/app-redirect''"
  "large_state\<lparr>error := None\<rparr> = large_state"
  "embedLogo large_state"
  by (simp_all add: large_state_def onChange_size_def sample_state_def initial_state_def
      targetUrl_def DEFAULT_REDIRECT_URL_def trim_samples embedLogo_def)

lemma large_canGenerate: "canGenerate sample_platform large_state"
  by (simp add: canGenerate_def isValidHttpUrl_def large_state_fields sample_platform_fields
      sample_urls protocol_eq_iff)

lemma large_geometry: "logoSize_of large_state = 360" "logo_corner large_state = 720"
  by (simp_all add: large_state_fields logoSize_of_def logo_corner_def, code_simp+)

lemma first_render_waiting_eq:
  "first_render_waiting =
     (large_state\<lparr>canvasRef :=
        Some \<lparr>width = 1800, height = 1800, pixels = chequer, fillStyle = opaque_black\<rparr>\<rparr>,
      [AwaitLogo large_state (Inr sample_logo)])"
  by (simp add: first_render_waiting_def start_effect_def effect_start_def resume_nth_def
      resume_def Let_def large_state_def[symmetric] large_state_fields large_canGenerate
      sample_platform_fields default_url_engine resized_1800 sample_loadImage)

lemma second_request_state:
  "fst second_request = sample_state\<lparr>canvasRef :=
        Some \<lparr>width = 1800, height = 1800, pixels = chequer, fillStyle = opaque_black\<rparr>\<rparr>"
  by (simp add: second_request_def user_input_def first_render_waiting_eq large_state_def
      onChange_size_def sample_state_def initial_state_def)

lemma second_request_fields:
  "canvasRef (fst second_request) =
     Some \<lparr>width = 1800, height = 1800, pixels = chequer, fillStyle = opaque_black\<rparr>"
  "context2d (fst second_request)" "size_px (fst second_request) = 900"
  "targetUrl (fst second_request) = str ''https://www.example.com/app-redirect''"
  "embedLogo (fst second_request)"
  "canGenerate sample_platform (fst second_request)"
  "snd second_request = [AwaitLogo large_state (Inr sample_logo)]"
  "(fst second_request)\<lparr>error := None\<rparr> = fst second_request"
       apply (simp_all add: second_request_state sample_state_fields embedLogo_def
      sample_canGenerate)
   apply (simp add: second_request_def user_input_def first_render_waiting_eq)
  apply (simp add: sample_state_def initial_state_def)
  done

lemma second_render_waiting_eq:
  "second_render_waiting =
     ((fst second_request)\<lparr>canvasRef := Some sample_symbol\<rparr>,
      [AwaitLogo large_state (Inr sample_logo),
       AwaitLogo (fst second_request) (Inr sample_logo)])"
  by (simp add: second_render_waiting_def start_effect_def effect_start_def resume_nth_def
      resume_def Let_def second_request_fields sample_platform_fields default_url_engine
      resized_900 sample_loadImage sample_symbol_def)

lemma superseded_history_eq:
  "superseded_history =
     ((fst second_request)\<lparr>canvasRef :=
         Some (overlay sample_platform (fst second_request) sample_logo
                 (overlay sample_platform large_state sample_logo sample_symbol))\<rparr>, [])"
  by (simp add: superseded_history_def second_render_waiting_eq resume_nth_def resume_def)

lemma second_request_geometry:
  "logoSize_of (fst second_request) = 180" "logo_corner (fst second_request) = 360"
  using sample_geometry
  by (simp_all add: second_request_state logoSize_of_def logo_corner_def)

section \<open>The claims\<close>

text \<open>
  Claim C1. When the target text fails validation, the effect ends with the
  validation message as its error, the whole bitmap of the canvas cleared (its
  dimensions kept), and nothing else drawn: the outcome is the same on every platform
  with the same URL constructor, so neither the engine nor the logo contributes to it.
  The hypotheses say that the canvas is mounted and hands out a 2D context.
\<close>

theorem run_rejects_invalid:
  assumes "canvasRef st = Some cv" and "context2d st" and "\<not> canGenerate P st"
  shows "error (run P st) = Some (str ''Please enter a valid http/https URL.'')
    \<and> (\<exists>cv'. canvasRef (run P st) = Some cv' \<and> width cv' = width cv \<and> height cv' = height cv
          \<and> (\<forall>i j. in_bitmap cv' i j \<longrightarrow> pixels cv' i j = transparent_black))
    \<and> (\<forall>P'. new_URL P' = new_URL P \<longrightarrow> run P' st = run P st)"
proof -
  let ?cv = "clearRect 0 0 (int (width cv)) (int (height cv)) cv"
  have 1: "error (run P st) = Some (str ''Please enter a valid http/https URL.'')"
    and 2: "canvasRef (run P st) = Some ?cv"
    using assms by (simp_all add: run_invalid)
  have 3: "width ?cv = width cv \<and> height ?cv = height cv
      \<and> (\<forall>i j. in_bitmap ?cv i j \<longrightarrow> pixels ?cv i j = transparent_black)"
    by (simp add: clearRect_def in_bitmap_def in_rect_def)
  have 4: "run P' st = run P st" if "new_URL P' = new_URL P" for P'
    using assms canGenerate_platform[OF that, of st] by (simp add: run_invalid)
  show ?thesis using 1 2 3 4 by blast
qed

theorem run_rejects_invalid_witness:
  "canvasRef ftp_state = Some blank_canvas \<and> context2d ftp_state
   \<and> \<not> canGenerate sample_platform ftp_state
   \<and> error (run sample_platform ftp_state) = Some (str ''Please enter a valid http/https URL.'')
   \<and> (\<exists>cv'. canvasRef (run sample_platform ftp_state) = Some cv'
         \<and> width cv' = 300 \<and> height cv' = 150
         \<and> (\<forall>i j. in_bitmap cv' i j \<longrightarrow> pixels cv' i j = transparent_black))
   \<and> run offline_platform ftp_state = run sample_platform ftp_state"
proof -
  note h = ftp_state_fields sample_canGenerate(4)
  note r = run_rejects_invalid[OF h]
  have u: "new_URL offline_platform = new_URL sample_platform"
    by (simp add: sample_platform_fields)
  from r have "run offline_platform ftp_state = run sample_platform ftp_state"
    using u by blast
  moreover from r have "error (run sample_platform ftp_state)
      = Some (str ''Please enter a valid http/https URL.'')"
    by blast
  moreover from r have "\<exists>cv'. canvasRef (run sample_platform ftp_state) = Some cv'
         \<and> width cv' = width blank_canvas \<and> height cv' = height blank_canvas
         \<and> (\<forall>i j. in_bitmap cv' i j \<longrightarrow> pixels cv' i j = transparent_black)"
    by blast
  moreover have "width blank_canvas = 300" "height blank_canvas = 150"
    by (simp_all add: blank_canvas_def)
  ultimately show ?thesis using h by simp
qed

text \<open>
  Claim C2. \<open>isValidHttpUrl\<close> is true exactly when the URL constructor accepts the
  string and the scheme of the result is \<open>http\<close> or \<open>https\<close>; when the
  constructor throws, the result is false. The function is total and returns a
  truth value only.
\<close>

theorem isValidHttpUrl_iff:
  "(isValidHttpUrl P s \<longleftrightarrow>
      (\<exists>u. new_URL P s = Inr u \<and> (scheme u = str ''http'' \<or> scheme u = str ''https'')))
   \<and> (new_URL P s = Inl e \<longrightarrow> isValidHttpUrl P s = False)"
  by (auto simp: isValidHttpUrl_def protocol_eq_iff split: sum.splits)

theorem isValidHttpUrl_iff_witness:
  "isValidHttpUrl sample_platform (str ''https://www.example.com'')
   \<and> \<not> isValidHttpUrl sample_platform (str ''ftp://example.com'')
   \<and> new_URL sample_platform (str ''example.com'') = Inl (ErrorObject (str ''Invalid URL''))
   \<and> \<not> isValidHttpUrl sample_platform (str ''example.com'')"
proof -
  have 1: "new_URL sample_platform (str ''example.com'') = Inl (ErrorObject (str ''Invalid URL''))"
    by (simp add: sample_platform_fields sample_urls)
  have 2: "scheme \<lparr>scheme = str ''ftp'', afterScheme = a\<rparr> \<noteq> str ''http''"
    "scheme \<lparr>scheme = str ''ftp'', afterScheme = a\<rparr> \<noteq> str ''https''" for a
    by (simp_all add: str_def)
  show ?thesis
    using isValidHttpUrl_iff[of sample_platform "str ''https://www.example.com''"]
      isValidHttpUrl_iff[of sample_platform "str ''ftp://example.com''"]
      isValidHttpUrl_iff[of sample_platform "str ''example.com''" "ErrorObject (str ''Invalid URL'')"]
      1 2
    by (simp add: sample_platform_fields sample_urls)
qed

text \<open>
  Claim C3. On a valid request the engine is asked once, on the freshly sized canvas,
  with the target text and these options: level H when the mode overlays a logo and
  M otherwise, the margin and the size as they stand in the state, dark
  \<open>#000000\<close> and light \<open>#FFFFFF\<close>. Replacing the engine by any other that
  agrees with it on that one call leaves the outcome unchanged, and a rejection of
  that call becomes the error of the run.
\<close>

theorem engine_options:
  assumes "canvasRef st = Some cv" and "context2d st" and "canGenerate P st"
  shows "(\<forall>E. E (set_height (size_px st) (set_width (size_px st) cv)) (targetUrl st)
              \<lparr>errorCorrectionLevel = (if mode st \<noteq> Plain then str ''H'' else str ''M''),
               qr_margin = margin st, qr_width = size_px st,
               color = \<lparr>dark = str ''#000000'', light = str ''#FFFFFF''\<rparr>\<rparr>
            = QRCode_toCanvas P (set_height (size_px st) (set_width (size_px st) cv)) (targetUrl st)
              \<lparr>errorCorrectionLevel = (if mode st \<noteq> Plain then str ''H'' else str ''M''),
               qr_margin = margin st, qr_width = size_px st,
               color = \<lparr>dark = str ''#000000'', light = str ''#FFFFFF''\<rparr>\<rparr>
          \<longrightarrow> run (P\<lparr>QRCode_toCanvas := E\<rparr>) st = run P st)
    \<and> (\<forall>err. QRCode_toCanvas P (set_height (size_px st) (set_width (size_px st) cv)) (targetUrl st)
              \<lparr>errorCorrectionLevel = (if mode st \<noteq> Plain then str ''H'' else str ''M''),
               qr_margin = margin st, qr_width = size_px st,
               color = \<lparr>dark = str ''#000000'', light = str ''#FFFFFF''\<rparr>\<rparr> = Inl err
          \<longrightarrow> error (run P st) = Some (catch_message err))"
proof -
  have o: "toCanvas_options st =
      \<lparr>errorCorrectionLevel = (if mode st \<noteq> Plain then str ''H'' else str ''M''),
       qr_margin = margin st, qr_width = size_px st,
       color = \<lparr>dark = str ''#000000'', light = str ''#FFFFFF''\<rparr>\<rparr>"
    by (simp add: toCanvas_options_def embedLogo_def)
  have 1: "run (P\<lparr>QRCode_toCanvas := E\<rparr>) st = run P st"
    if "E (set_height (size_px st) (set_width (size_px st) cv)) (targetUrl st) (toCanvas_options st)
        = QRCode_toCanvas P (set_height (size_px st) (set_width (size_px st) cv)) (targetUrl st)
            (toCanvas_options st)" for E
    using assms that by (simp add: run_valid Let_def cong: sum.case_cong if_cong)
  have 2: "error (run P st) = Some (catch_message err)"
    if "QRCode_toCanvas P (set_height (size_px st) (set_width (size_px st) cv)) (targetUrl st)
            (toCanvas_options st) = Inl err" for err
    using assms that by (simp add: run_valid Let_def)
  show ?thesis using 1 2 unfolding o by blast
qed

theorem engine_options_witness:
  "canvasRef sample_state = Some blank_canvas \<and> context2d sample_state
   \<and> canGenerate sample_platform sample_state
   \<and> run (sample_platform\<lparr>QRCode_toCanvas := picky_toCanvas\<rparr>) sample_state
       = run sample_platform sample_state
   \<and> canvasRef long_state = Some blank_canvas \<and> context2d long_state
   \<and> canGenerate sample_platform long_state
   \<and> error (run sample_platform long_state) = Some (str ''The amount of data is too big'')"
proof -
  note h = sample_state_fields(2,3) sample_canGenerate(1)
  note g = long_state_fields(2,3) long_canGenerate
  have m: "mode sample_state \<noteq> Plain" "mode long_state \<noteq> Plain"
    by (simp_all add: sample_state_fields long_state_fields)
  have p: "picky_toCanvas cv t
       \<lparr>errorCorrectionLevel = str ''H'', qr_margin = 2, qr_width = 900,
        color = \<lparr>dark = str ''#000000'', light = str ''#FFFFFF''\<rparr>\<rparr>
     = sample_toCanvas cv t
       \<lparr>errorCorrectionLevel = str ''H'', qr_margin = 2, qr_width = 900,
        color = \<lparr>dark = str ''#000000'', light = str ''#FFFFFF''\<rparr>\<rparr>" for cv t
    by (simp add: picky_toCanvas_def)
  have 1: "run (sample_platform\<lparr>QRCode_toCanvas := picky_toCanvas\<rparr>) sample_state
       = run sample_platform sample_state"
    using engine_options[OF h, THEN conjunct1, rule_format, of picky_toCanvas]
    by (simp add: m sample_state_fields sample_platform_fields p)
  have 2: "error (run sample_platform long_state) = Some (str ''The amount of data is too big'')"
    using engine_options[OF g, THEN conjunct2, rule_format,
        of "ErrorObject (str ''The amount of data is too big'')"]
    by (simp add: sample_platform_fields long_engine catch_message_def)
  show ?thesis using h g 1 2 by simp
qed

text \<open>
  Claim C4. For an integer size below \<open>2 ^ 53\<close> and a ratio between 0 and 1, the
  side of the logo square is the floor of the binary64 product of size and ratio, the
  corner coordinate is the floor of half the size minus half the side (no rounding
  occurs there), the margin left of the square is at most the margin right of it and
  smaller by at most one, and the overlay paints and draws at exactly that
  position and side.
\<close>

theorem logo_geometry:
  assumes "size_px st = of_int n" and "0 \<le> n" and "n < 2 ^ 53"
    and "0 \<le> logoRatio st" and "logoRatio st \<le> 1"
  shows "logoSize_of st = \<lfloor>fmul (of_int n) (logoRatio st)\<rfloor>
    \<and> logo_corner st = \<lfloor>(of_int n / 2 - of_int (logoSize_of st) / 2 :: rat)\<rfloor>
    \<and> logo_corner st \<le> n - (logo_corner st + logoSize_of st)
    \<and> n - (logo_corner st + logoSize_of st) \<le> logo_corner st + 1
    \<and> overlay P st logo cv =
        drawImage P logo (logo_corner st) (logo_corner st) (logoSize_of st) (logoSize_of st)
          (fillRect P (logo_corner st) (logo_corner st) (logoSize_of st) (logoSize_of st)
            (set_fillStyle (str ''#FFFFFF'') cv))"
proof -
  note b = logoSize_bounds[OF assms]
  have x: "logo_corner st = (n - logoSize_of st) div 2"
    using assms(1-3) b by (intro logo_corner_exact) simp_all
  have e: "(of_int n / 2 - of_int (logoSize_of st) / 2 :: rat) = of_int (n - logoSize_of st) / 2"
    by (simp add: field_simps)
  have "\<lfloor>(of_int n / 2 - of_int (logoSize_of st) / 2 :: rat)\<rfloor> = (n - logoSize_of st) div 2"
    unfolding e
    using floor_divide_of_int_eq[of "n - logoSize_of st" 2, where ?'a = rat]
    by (simp only: of_int_numeral)
  moreover have "logoSize_of st = \<lfloor>fmul (of_int n) (logoRatio st)\<rfloor>"
    by (simp add: logoSize_of_def Math_floor_def assms(1))
  moreover have "overlay P st logo cv =
        drawImage P logo (logo_corner st) (logo_corner st) (logoSize_of st) (logoSize_of st)
          (fillRect P (logo_corner st) (logo_corner st) (logoSize_of st) (logoSize_of st)
            (set_fillStyle (str ''#FFFFFF'') cv))"
    by (simp add: overlay_def Let_def)
  moreover have "(n - logoSize_of st) div 2 \<le> n - ((n - logoSize_of st) div 2 + logoSize_of st)"
    "n - ((n - logoSize_of st) div 2 + logoSize_of st) \<le> (n - logoSize_of st) div 2 + 1"
    by linarith+
  ultimately show ?thesis unfolding x by simp
qed

theorem logo_geometry_witness:
  "size_px sample_state = of_int 900 \<and> (0::int) \<le> 900 \<and> (900::int) < 2 ^ 53
   \<and> 0 \<le> logoRatio sample_state \<and> logoRatio sample_state \<le> 1
   \<and> logoSize_of sample_state = 180 \<and> logo_corner sample_state = 360
   \<and> \<lfloor>fmul (of_int 900) (logoRatio sample_state)\<rfloor> = 180
   \<and> overlay sample_platform sample_state sample_logo blank_canvas =
        drawImage sample_platform sample_logo 360 360 180 180
          (fillRect sample_platform 360 360 180 180 (set_fillStyle (str ''#FFFFFF'') blank_canvas))"
proof -
  have r: "0 \<le> logoRatio sample_state" "logoRatio sample_state \<le> 1"
    unfolding sample_state_fields by code_simp+
  have s: "size_px sample_state = of_int 900" by (simp add: sample_state_fields)
  have n: "(0::int) \<le> 900" "(900::int) < 2 ^ 53" by simp_all
  from logo_geometry[OF s n r, of sample_platform sample_logo blank_canvas]
  show ?thesis using r s by (simp add: sample_geometry)
qed

text \<open>
  Claim C5, evaluated where it fails. With a logo mode, a valid address and an engine
  that succeeds, a logo that does not load leaves the generic message as the error and
  the symbol drawn by the engine, without patch or logo, on the canvas.
\<close>

theorem logo_failure_keeps_symbol:
  "error (run offline_platform sample_state) = Some (str ''Failed to generate QR.'')
   \<and> canvasRef (run offline_platform sample_state) =
       Some \<lparr>width = 900, height = 900,
             pixels = chequer,
             fillStyle = opaque_black\<rparr>"
proof -
  have "mode sample_state \<noteq> Plain" by (simp add: sample_state_fields)
  from run_logo_failure[OF sample_state_fields(2,3) sample_canGenerate(2) this, of _]
  show ?thesis
    by (simp add: sample_platform_fields sample_state_fields(4) sample_engine_900)
qed

text \<open>
  Claim C6. In the mode without a logo, when the engine succeeds, the canvas after the
  run is the canvas the engine returned, no error is set, and the loading, resampling
  and blending of images play no part.
\<close>

theorem plain_is_engine_output:
  assumes "canvasRef st = Some cv" and "context2d st" and "canGenerate P st"
    and "mode st = Plain"
    and "QRCode_toCanvas P (set_height (size_px st) (set_width (size_px st) cv)) (targetUrl st)
           (toCanvas_options st) = Inr out"
  shows "canvasRef (run P st) = Some out \<and> error (run P st) = None
    \<and> (\<forall>f r b. run (P\<lparr>fetch_image := f, resample := r, blend := b\<rparr>) st = run P st)"
  using assms by (simp add: run_valid Let_def embedLogo_def)

theorem plain_is_engine_output_witness:
  "canvasRef plain_state = Some blank_canvas \<and> context2d plain_state
   \<and> canGenerate sample_platform plain_state \<and> mode plain_state = Plain
   \<and> QRCode_toCanvas sample_platform
        (set_height (size_px plain_state) (set_width (size_px plain_state) blank_canvas))
        (targetUrl plain_state) (toCanvas_options plain_state) = Inr sample_symbol
   \<and> canvasRef (run sample_platform plain_state) = Some sample_symbol
   \<and> error (run sample_platform plain_state) = None"
  using plain_is_engine_output[OF plain_state_fields(2,3) sample_canGenerate(3)
      plain_state_fields(1) plain_engine]
    plain_state_fields(1,2,3) sample_canGenerate(3) plain_engine
  by blast

text \<open>
  Claim C7. In a logo mode, when the engine succeeds and the logo loads, the canvas
  after the run is the engine's canvas with a white rectangle filled and then the
  logo drawn at the same corner and side. Every pixel of the bitmap inside that
  square is the logo's resampled colour painted over opaque white, whatever the
  engine had drawn there; every pixel outside it is as the engine left it.
\<close>

theorem logo_square_white_backed:
  assumes "canvasRef st = Some cv" and "context2d st" and "canGenerate P st"
    and "mode st \<noteq> Plain"
    and "QRCode_toCanvas P (set_height (size_px st) (set_width (size_px st) cv)) (targetUrl st)
           (toCanvas_options st) = Inr qr"
    and "fetch_image P (str ''/logo.png'') = Some logo"
  shows "\<exists>out. canvasRef (run P st) = Some out
    \<and> out = drawImage P logo (logo_corner st) (logo_corner st) (logoSize_of st) (logoSize_of st)
              (fillRect P (logo_corner st) (logo_corner st) (logoSize_of st) (logoSize_of st)
                (qr\<lparr>fillStyle := opaque_white\<rparr>))
    \<and> (\<forall>i j. in_bitmap qr i j
            \<and> in_rect (logo_corner st) (logo_corner st) (logoSize_of st) (logoSize_of st) i j
          \<longrightarrow> pixels out i j
              = paint P (resample P logo (logoSize_of st) (logoSize_of st)
                          (i - logo_corner st) (j - logo_corner st)) opaque_white)
    \<and> (\<forall>i j. \<not> in_rect (logo_corner st) (logo_corner st) (logoSize_of st) (logoSize_of st) i j
          \<longrightarrow> pixels out i j = pixels qr i j)
    \<and> width out = width qr \<and> height out = height qr"
proof -
  let ?x = "logo_corner st" and ?n = "logoSize_of st"
  let ?bg = "fillRect P ?x ?x ?n ?n (qr\<lparr>fillStyle := opaque_white\<rparr>)"
  let ?out = "drawImage P logo ?x ?x ?n ?n ?bg"
  have 1: "canvasRef (run P st) = Some ?out"
    using assms
    by (simp add: run_valid Let_def embedLogo_def loadImage_def overlay_def set_fillStyle_white)
  have w: "paint P opaque_white c = opaque_white" for c
    by (simp add: paint_def opaque_white_def)
  have bg: "pixels ?bg i j = opaque_white" if "in_bitmap qr i j" "in_rect ?x ?x ?n ?n i j" for i j
    using that by (simp add: fillRect_def in_bitmap_def w)
  have bg': "pixels ?bg i j = pixels qr i j" if "\<not> in_rect ?x ?x ?n ?n i j" for i j
    using that by (simp add: fillRect_def)
  have 2: "pixels ?out i j = paint P (resample P logo ?n ?n (i - ?x) (j - ?x)) opaque_white"
    if "in_bitmap qr i j" "in_rect ?x ?x ?n ?n i j" for i j
  proof -
    have "in_bitmap ?bg i j" using that(1) by (simp add: in_bitmap_def fillRect_def)
    then show ?thesis using that bg[OF that] by (simp add: drawImage_def)
  qed
  have 3: "pixels ?out i j = pixels qr i j" if "\<not> in_rect ?x ?x ?n ?n i j" for i j
    using that bg'[OF that] by (simp add: drawImage_def)
  have 4: "width ?out = width qr \<and> height ?out = height qr"
    by (simp add: drawImage_def fillRect_def)
  show ?thesis using 1 2 3 4 by blast
qed

theorem logo_square_white_backed_witness:
  "canvasRef sample_state = Some blank_canvas \<and> context2d sample_state
   \<and> canGenerate sample_platform sample_state \<and> mode sample_state \<noteq> Plain
   \<and> fetch_image sample_platform (str ''/logo.png'') = Some sample_logo
   \<and> in_bitmap sample_symbol 450 450 \<and> in_rect 360 360 180 180 450 450
   \<and> \<not> in_rect 360 360 180 180 0 0
   \<and> (\<exists>out. canvasRef (run sample_platform sample_state) = Some out
         \<and> pixels out 450 450 = \<lparr>red = 227, green = 127, blue = 127, alpha = 255\<rparr>
         \<and> pixels out 0 0 = opaque_black
         \<and> width out = 900 \<and> height out = 900)"
proof -
  have m: "mode sample_state \<noteq> Plain" by (simp add: sample_state_fields)
  note h = sample_state_fields(2,3) sample_canGenerate(1) m sample_state_engine
    sample_platform_fields(3)
  from logo_square_white_backed[OF h] obtain out where
    o: "canvasRef (run sample_platform sample_state) = Some out"
    and inside: "\<And>i j. in_bitmap sample_symbol i j \<and> in_rect 360 360 180 180 i j
        \<Longrightarrow> pixels out i j = paint sample_platform
              (resample sample_platform sample_logo 180 180 (i - 360) (j - 360)) opaque_white"
    and outside: "\<And>i j. \<not> in_rect 360 360 180 180 i j \<Longrightarrow> pixels out i j = pixels sample_symbol i j"
    and d: "width out = width sample_symbol" "height out = height sample_symbol"
    unfolding sample_geometry by blast
  have a: "in_bitmap sample_symbol 450 450" "in_rect 360 360 180 180 450 450"
    "\<not> in_rect 360 360 180 180 0 0"
    by (simp_all add: in_bitmap_def in_rect_def sample_symbol_def)
  have "pixels out 450 450 = \<lparr>red = 227, green = 127, blue = 127, alpha = 255\<rparr>"
    using inside[of 450 450] a
    by (simp add: paint_def sample_platform_def sample_logo_def sample_blend_def opaque_white_def)
  moreover have "pixels out 0 0 = opaque_black"
    using outside[of 0 0] a by (simp add: sample_symbol_def chequer_def)
  moreover have "width out = 900" "height out = 900" using d by (simp_all add: sample_symbol_def)
  ultimately show ?thesis using o a h(1-4,6) by blast
qed

text \<open>
  Claim C8, as stated, fails: the same request, rendered with the same logo asset,
  gives other pixels when an earlier run is still waiting for the logo. In the sample
  history the run started at size 1800 resumes after the canvas has been redrawn at
  size 900 and paints its patch, computed from its own size, at corner 720; the pixel
  at (800, 800) is logo over white, where a render of that request with nothing in
  flight leaves the engine's module.
\<close>

theorem superseded_render_paints:
  "fst second_request = sample_state\<lparr>canvasRef := canvasRef (fst second_request)\<rparr>
   \<and> superseded_history =
       resume_nth sample_platform 0 (resume_nth sample_platform 0
         (resume_nth sample_platform 1 (start_effect sample_platform second_request)))
   \<and> snd superseded_history = []
   \<and> pixel_at superseded_history 800 800 = Some \<lparr>red = 227, green = 127, blue = 127, alpha = 255\<rparr>
   \<and> pixel_at (render_alone sample_platform (fst second_request)) 800 800 = Some opaque_black
   \<and> pixel_at (render_alone sample_platform sample_state) 800 800 = Some opaque_black"
proof -
  have 1: "fst second_request = sample_state\<lparr>canvasRef := canvasRef (fst second_request)\<rparr>"
    by (simp add: second_request_state)
  have 2: "superseded_history =
       resume_nth sample_platform 0 (resume_nth sample_platform 0
         (resume_nth sample_platform 1 (start_effect sample_platform second_request)))"
    by (simp add: superseded_history_def second_render_waiting_def)
  have 3: "snd superseded_history = []" by (simp add: superseded_history_eq)
  have r: "in_rect 720 720 360 360 800 800" "\<not> in_rect 360 360 180 180 800 800"
    "in_bitmap sample_symbol 800 800" "pixels sample_symbol 800 800 = opaque_black"
    by (simp_all add: in_rect_def in_bitmap_def sample_symbol_def chequer_def)
  have b: "in_bitmap (overlay P st logo cv) i j = in_bitmap cv i j" for P st logo cv i j
    by (simp add: in_bitmap_def overlay_dims)
  have 4: "pixel_at superseded_history 800 800
      = Some \<lparr>red = 227, green = 127, blue = 127, alpha = 255\<rparr>"
    by (simp add: pixel_at_def superseded_history_eq overlay_pixel second_request_geometry
        large_geometry r b sample_logo_on_white)
  have e: "QRCode_toCanvas sample_platform
        (set_height (size_px (fst second_request)) (set_width (size_px (fst second_request))
          \<lparr>width = 1800, height = 1800, pixels = chequer, fillStyle = opaque_black\<rparr>))
        (targetUrl (fst second_request)) (toCanvas_options (fst second_request)) = Inr sample_symbol"
    by (simp add: second_request_fields sample_platform_fields default_url_engine resized_900
        sample_symbol_def)
  have "run sample_platform (fst second_request) = (fst second_request)\<lparr>error := None,
      canvasRef := Some (overlay sample_platform (fst second_request) sample_logo sample_symbol)\<rparr>"
    unfolding run_valid[OF second_request_fields(1,2,6)]
    by (simp add: Let_def e second_request_fields(5) sample_loadImage)
  then have 5: "pixel_at (render_alone sample_platform (fst second_request)) 800 800 = Some opaque_black"
    by (simp add: render_alone_run pixel_at_def overlay_pixel second_request_geometry r)
  have "run sample_platform sample_state = sample_state\<lparr>error := None,
      canvasRef := Some (overlay sample_platform sample_state sample_logo sample_symbol)\<rparr>"
    unfolding run_valid[OF sample_state_fields(2,3) sample_canGenerate(1)]
    by (simp add: Let_def sample_state_engine embedLogo_def sample_state_fields(1) sample_loadImage)
  then have 6: "pixel_at (render_alone sample_platform sample_state) 800 800 = Some opaque_black"
    by (simp add: render_alone_run pixel_at_def overlay_pixel sample_geometry r)
  show ?thesis using 1 2 3 4 5 6 by blast
qed

text \<open>
  Claim C8, amended. A render with no other run in flight is the uninterrupted run of
  the effect and leaves nothing suspended; for a fixed platform (engine and logo
  asset) it is a function of the request alone: rendering again on its own outcome
  changes nothing, and on a valid request the outcome does not depend on what the
  canvas held or which error was shown before.
\<close>

theorem render_alone_deterministic:
  "render_alone P st = (run P st, [])
   \<and> render_alone P (fst (render_alone P st)) = render_alone P st
   \<and> (\<forall>c c' e. canvasRef st = Some c \<and> context2d st \<and> canGenerate P st
        \<longrightarrow> render_alone P (st\<lparr>canvasRef := Some c', error := e\<rparr>) = render_alone P st)"
  using run_twice[of P st] run_prior_output[of st _ P]
  by (simp add: render_alone_run)

theorem render_alone_deterministic_witness:
  "render_alone sample_platform sample_state = (run sample_platform sample_state, [])
   \<and> render_alone sample_platform (fst (render_alone sample_platform sample_state))
       = render_alone sample_platform sample_state
   \<and> canvasRef sample_state = Some blank_canvas \<and> context2d sample_state
   \<and> canGenerate sample_platform sample_state
   \<and> render_alone sample_platform (sample_state\<lparr>canvasRef := Some sample_symbol,
          error := Some (str ''stale'')\<rparr>) = render_alone sample_platform sample_state"
proof -
  note h = sample_state_fields(2,3) sample_canGenerate(1)
  note r = render_alone_deterministic[of sample_platform sample_state]
  from r have 1: "render_alone sample_platform sample_state = (run sample_platform sample_state, [])"
    by (rule conjunct1)
  from r have 2: "render_alone sample_platform (fst (render_alone sample_platform sample_state))
       = render_alone sample_platform sample_state"
    by blast
  from r h have 3: "render_alone sample_platform (sample_state\<lparr>canvasRef := Some sample_symbol,
          error := Some (str ''stale'')\<rparr>) = render_alone sample_platform sample_state"
    by blast
  show ?thesis using h 1 2 3 by blast
qed

text \<open>
  Claim C9, as stated, fails: the handlers store the typed number unchanged and the
  effect checks no range, so a size of 5000 reaches the effect, passes validation and
  is rendered on a canvas of 5000 by 5000 pixels.
\<close>

theorem bounds_not_enforced:
  "size_px oversized_state = 5000 \<and> \<not> size_px oversized_state \<le> 2000
   \<and> canGenerate sample_platform oversized_state
   \<and> error (run sample_platform oversized_state) = None
   \<and> map_option width (canvasRef (run sample_platform oversized_state)) = Some 5000
   \<and> map_option height (canvasRef (run sample_platform oversized_state)) = Some 5000"
proof -
  have e: "embedLogo oversized_state" by (simp add: embedLogo_def oversized_fields)
  have d: "set_height 5000 (set_width 5000 blank_canvas) =
     \<lparr>width = 5000, height = 5000, pixels = (\<lambda>i j. transparent_black), fillStyle = opaque_black\<rparr>"
    by (simp add: resized_canvas reflect_dimension_def to_unsigned_long_def)
  have g: "sample_toCanvas cv (str ''https://www.example.com/app-redirect'') opts
      = Inr (cv\<lparr>pixels := chequer\<rparr>)" for cv opts
    by (simp add: sample_engine str_def)
  have "run sample_platform oversized_state =
      oversized_state\<lparr>error := None, canvasRef := Some (overlay sample_platform oversized_state
        sample_logo \<lparr>width = 5000, height = 5000, pixels = chequer, fillStyle = opaque_black\<rparr>)\<rparr>"
    unfolding run_valid[OF oversized_fields(2,3) oversized_canGenerate]
    by (simp add: Let_def oversized_fields sample_platform_fields d g e loadImage_def)
  then show ?thesis
    by (simp add: oversized_fields oversized_canGenerate overlay_dims)
qed

text \<open>
  Claim C9, amended. For every request that is within the ranges (an integer size from
  300 to 2000, a ratio between the binary64 values of 0.14 and 0.26), the ends included,
  the canvas handed to the engine measures size by size and the logo square lies
  inside it: the side and the corner are not negative, and corner plus side does not
  exceed the size. The run then ends without an error whenever the engine settles
  and, in a logo mode, the logo loads.
\<close>

theorem logo_within_bounds:
  assumes "size_px st = of_int n" and "300 \<le> n" and "n \<le> 2000"
    and "fl (14 / 100) \<le> logoRatio st" and "logoRatio st \<le> fl (26 / 100)"
  shows "0 \<le> logoSize_of st \<and> 0 \<le> logo_corner st \<and> logo_corner st + logoSize_of st \<le> n
    \<and> width (set_height (size_px st) (set_width (size_px st) cv)) = nat n
    \<and> height (set_height (size_px st) (set_width (size_px st) cv)) = nat n
    \<and> (\<forall>i j. in_rect (logo_corner st) (logo_corner st) (logoSize_of st) (logoSize_of st) i j
          \<longrightarrow> in_bitmap (set_height (size_px st) (set_width (size_px st) cv)) i j)
    \<and> (\<forall>P qr. canvasRef st = Some cv \<and> context2d st \<and> canGenerate P st
          \<and> QRCode_toCanvas P (set_height (size_px st) (set_width (size_px st) cv))
                (targetUrl st) (toCanvas_options st) = Inr qr
          \<and> (mode st = Plain \<or> fetch_image P (str ''/logo.png'') \<noteq> None)
          \<longrightarrow> error (run P st) = None)"
proof -
  have n: "0 \<le> n" "n < 2 ^ 53" using assms(2,3) by simp_all
  have r: "0 \<le> logoRatio st" "logoRatio st \<le> 1" using assms(4,5) ratio_bounds by linarith+
  note b = logoSize_bounds[OF assms(1) n r]
  have x: "logo_corner st = (n - logoSize_of st) div 2"
    using assms(1) n b by (intro logo_corner_exact) simp_all
  have d: "width (set_height (size_px st) (set_width (size_px st) cv)) = nat n"
    "height (set_height (size_px st) (set_width (size_px st) cv)) = nat n"
    using assms(2,3) by (simp_all add: resized_canvas assms(1) reflect_dimension_int)
  have g: "0 \<le> logo_corner st" "logo_corner st + logoSize_of st \<le> n"
    using b unfolding x by linarith+
  have "in_bitmap (set_height (size_px st) (set_width (size_px st) cv)) i j"
    if "in_rect (logo_corner st) (logo_corner st) (logoSize_of st) (logoSize_of st) i j" for i j
    using that g b n(1) unfolding in_bitmap_def in_rect_def d by simp
  moreover have "error (run P st) = None"
    if "canvasRef st = Some cv \<and> context2d st \<and> canGenerate P st
          \<and> QRCode_toCanvas P (set_height (size_px st) (set_width (size_px st) cv))
                (targetUrl st) (toCanvas_options st) = Inr qr
          \<and> (mode st = Plain \<or> fetch_image P (str ''/logo.png'') \<noteq> None)" for P qr
    using that run_success[of st cv P qr] by blast
  ultimately show ?thesis using b g d by blast
qed

theorem logo_within_bounds_witness:
  "size_px smallest_state = of_int 300 \<and> size_px largest_state = of_int 2000
   \<and> fl (14 / 100) \<le> logoRatio smallest_state \<and> logoRatio smallest_state \<le> fl (26 / 100)
   \<and> fl (14 / 100) \<le> logoRatio largest_state \<and> logoRatio largest_state \<le> fl (26 / 100)
   \<and> logoSize_of smallest_state = 42 \<and> logo_corner smallest_state = 129
   \<and> logoSize_of largest_state = 520 \<and> logo_corner largest_state = 740
   \<and> width (set_height (size_px smallest_state) (set_width (size_px smallest_state) blank_canvas)) = 300
   \<and> height (set_height (size_px largest_state) (set_width (size_px largest_state) blank_canvas)) = 2000
   \<and> in_rect 129 129 42 42 170 170
   \<and> in_bitmap (set_height (size_px smallest_state) (set_width (size_px smallest_state) blank_canvas)) 170 170
   \<and> in_rect 740 740 520 520 1259 1259
   \<and> in_bitmap (set_height (size_px largest_state) (set_width (size_px largest_state) blank_canvas)) 1259 1259
   \<and> canvasRef smallest_state = Some blank_canvas \<and> context2d smallest_state
   \<and> canGenerate sample_platform smallest_state
   \<and> fetch_image sample_platform (str ''/logo.png'') \<noteq> None
   \<and> error (run sample_platform smallest_state) = None"
proof -
  have o: "fl (14 / 100) \<le> fl (26 / 100)" by code_simp
  have n: "(300::int) \<le> 300" "(300::int) \<le> 2000" "(2000::int) \<le> 2000" by simp_all
  have lo: "fl (14 / 100) \<le> logoRatio smallest_state" "logoRatio smallest_state \<le> fl (26 / 100)"
    and hi: "fl (14 / 100) \<le> logoRatio largest_state" "logoRatio largest_state \<le> fl (26 / 100)"
    using o by (simp_all add: boundary_fields)
  note a = logo_within_bounds[OF boundary_fields(1) n(1,2) lo, of blank_canvas,
      unfolded boundary_geometry]
  note b = logo_within_bounds[OF boundary_fields(3) n(2,3) hi, of blank_canvas,
      unfolded boundary_geometry]
  have r: "in_rect 129 129 42 42 170 170" "in_rect 740 740 520 520 1259 1259"
    by (simp_all add: in_rect_def)
  from a r(1) have a': "in_bitmap (set_height (size_px smallest_state)
      (set_width (size_px smallest_state) blank_canvas)) 170 170" by blast
  from b r(2) have b': "in_bitmap (set_height (size_px largest_state)
      (set_width (size_px largest_state) blank_canvas)) 1259 1259" by blast
  from a have a'': "width (set_height (size_px smallest_state)
      (set_width (size_px smallest_state) blank_canvas)) = 300" by simp
  from b have b'': "height (set_height (size_px largest_state)
      (set_width (size_px largest_state) blank_canvas)) = 2000" by simp
  have f: "fetch_image sample_platform (str ''/logo.png'') \<noteq> None"
    by (simp add: sample_platform_fields)
  note s = smallest_state_fields(2,3) smallest_canGenerate
  from a s smallest_engine f have e: "error (run sample_platform smallest_state) = None"
    by blast
  show ?thesis using lo hi r a' b' a'' b'' boundary_fields(1,3) boundary_geometry f s e by blast
qed

text \<open>
  Claim C10. The target text is the trimmed content of the field the mode selects
  (the redirect field in redirect mode, the website field otherwise). White space
  added around an address changes neither the target text nor the validation nor the
  canvas and error that the effect produces.
\<close>

theorem targetUrl_trimmed:
  assumes "\<forall>c\<in>set l. isWhiteSpace c" and "\<forall>c\<in>set r. isWhiteSpace c"
  shows "targetUrl st = trim (if mode st = Redirect then redirectUrl st else websiteUrl st)
    \<and> targetUrl (onChange_redirectUrl (l @ u @ r) st) = targetUrl (onChange_redirectUrl u st)
    \<and> targetUrl (onChange_websiteUrl (l @ u @ r) st) = targetUrl (onChange_websiteUrl u st)
    \<and> canGenerate P (onChange_redirectUrl (l @ u @ r) st) = canGenerate P (onChange_redirectUrl u st)
    \<and> canGenerate P (onChange_websiteUrl (l @ u @ r) st) = canGenerate P (onChange_websiteUrl u st)
    \<and> canvasRef (run P (onChange_redirectUrl (l @ u @ r) st)) = canvasRef (run P (onChange_redirectUrl u st))
    \<and> error (run P (onChange_redirectUrl (l @ u @ r) st)) = error (run P (onChange_redirectUrl u st))
    \<and> canvasRef (run P (onChange_websiteUrl (l @ u @ r) st)) = canvasRef (run P (onChange_websiteUrl u st))
    \<and> error (run P (onChange_websiteUrl (l @ u @ r) st)) = error (run P (onChange_websiteUrl u st))"
proof -
  have t: "trim (l @ u @ r) = trim u" using assms by (rule trim_padded)
  have a: "targetUrl (onChange_redirectUrl (l @ u @ r) st) = targetUrl (onChange_redirectUrl u st)"
    by (simp add: targetUrl_def onChange_redirectUrl_def t)
  have b: "targetUrl (onChange_websiteUrl (l @ u @ r) st) = targetUrl (onChange_websiteUrl u st)"
    by (simp add: targetUrl_def onChange_websiteUrl_def t)
  have c: "canvasRef (run P (onChange_redirectUrl (l @ u @ r) st)) = canvasRef (run P (onChange_redirectUrl u st))
    \<and> error (run P (onChange_redirectUrl (l @ u @ r) st)) = error (run P (onChange_redirectUrl u st))"
    by (rule run_cong_targetUrl[OF a]) (simp_all add: onChange_redirectUrl_def)
  have d: "canvasRef (run P (onChange_websiteUrl (l @ u @ r) st)) = canvasRef (run P (onChange_websiteUrl u st))
    \<and> error (run P (onChange_websiteUrl (l @ u @ r) st)) = error (run P (onChange_websiteUrl u st))"
    by (rule run_cong_targetUrl[OF b]) (simp_all add: onChange_websiteUrl_def)
  have e: "targetUrl st = trim (if mode st = Redirect then redirectUrl st else websiteUrl st)"
    by (simp add: targetUrl_def)
  show ?thesis using a b c d e by (simp add: canGenerate_def)
qed

theorem targetUrl_trimmed_witness:
  "list_all isWhiteSpace (str ''  '')
   \<and> targetUrl padded_state = str ''https://www.example.com''
   \<and> canGenerate sample_platform padded_state
   \<and> canvasRef (run sample_platform padded_state)
       = canvasRef (run sample_platform (onChange_redirectUrl (str ''https://www.example.com'') sample_state))
   \<and> error (run sample_platform padded_state)
       = error (run sample_platform (onChange_redirectUrl (str ''https://www.example.com'') sample_state))"
proof -
  have w: "\<forall>c\<in>set (str ''  ''). isWhiteSpace c" by (simp add: str_def isWhiteSpace_def)
  have p: "padded_state = onChange_redirectUrl
      (str ''  '' @ str ''https://www.example.com'' @ str ''  '') sample_state"
    by (simp add: padded_state_def str_def)
  have t: "targetUrl (onChange_redirectUrl (str ''https://www.example.com'') sample_state)
      = str ''https://www.example.com''"
    by (simp add: onChange_redirectUrl_def targetUrl_def sample_state_def initial_state_def
        trim_samples)
  have c: "canGenerate sample_platform
      (onChange_redirectUrl (str ''https://www.example.com'') sample_state)"
    by (simp add: canGenerate_def t isValidHttpUrl_def sample_platform_fields sample_urls
        protocol_eq_iff)
  note r = targetUrl_trimmed[OF w w, of sample_state "str ''https://www.example.com''"
      sample_platform, folded p]
  have "list_all isWhiteSpace (str ''  '')" using w by (simp only: list_all_iff)
  then show ?thesis using r t c by simp
qed

end
